theory Spec2Isabelle
  imports Main
begin

section \<open>Python values and built-ins used by postgresql\_set\<close>

text \<open>
  A Python \<open>str\<close> is a \<^typ>\<open>string\<close>; a \<^typ>\<open>char\<close> stands for the code point
  of the same number (0..255), so the character tests below are those of Python 3 on
  that range. Python integers are unbounded and are \<^typ>\<open>int\<close>. A Python float is a
  value of a type parameter \<open>'f\<close>: which literals \<open>float()\<close> accepts is modelled
  (\<open>float_literal\<close>), the rounded value it returns and its comparison with an integer
  are parameters (\<open>float_of\<close>, \<open>float_eq_int\<close>).
\<close>

datatype exn = ValueError

datatype 'f pyval = PNone | PStr string | PInt int | PFloat 'f

text \<open>\<open>c.isdigit()\<close>: the ASCII digits and the superscripts 2, 3 and 1.\<close>

definition isdigit :: "char \<Rightarrow> bool" where
  "isdigit c = (let n = (of_char c :: nat)
                in (48 \<le> n \<and> n \<le> 57) \<or> n = 178 \<or> n = 179 \<or> n = 185)"

text \<open>\<open>c.isalpha()\<close>: the ASCII letters and the letters of the upper half.\<close>

definition isalpha :: "char \<Rightarrow> bool" where
  "isalpha c = (let n = (of_char c :: nat)
                in (65 \<le> n \<and> n \<le> 90) \<or> (97 \<le> n \<and> n \<le> 122)
                   \<or> n = 170 \<or> n = 181 \<or> n = 186
                   \<or> (192 \<le> n \<and> n \<le> 214) \<or> (216 \<le> n \<and> n \<le> 246) \<or> 248 \<le> n)"

text \<open>
  The white space that \<open>int()\<close> and \<open>float()\<close> strip at both ends: tab to carriage
  return, the space, and the two spaces of the upper half (next line, no-break space).
  The separators 28 to 31 are white space for \<open>isspace()\<close> but are not stripped.
\<close>

definition isspace :: "char \<Rightarrow> bool" where
  "isspace c = (let n = (of_char c :: nat)
                in (9 \<le> n \<and> n \<le> 13) \<or> n = 32 \<or> n = 133 \<or> n = 160)"

definition decimal :: "char \<Rightarrow> bool" where
  "decimal c = (let n = (of_char c :: nat) in 48 \<le> n \<and> n \<le> 57)"

definition strip :: "string \<Rightarrow> string" where
  "strip s = rev (dropWhile isspace (rev (dropWhile isspace s)))"

text \<open>\<open>s.isdigit()\<close> on a string: not empty and every character a digit.\<close>

definition str_isdigit :: "string \<Rightarrow> bool" where
  "str_isdigit s = (s \<noteq> [] \<and> list_all isdigit s)"

text \<open>
  \<open>s.upper()\<close> and \<open>s.lower()\<close> on the ASCII letters. \<open>upper\<close> is only applied to
  strings of digits followed by \<open>mb\<close>, \<open>gb\<close>, \<open>tb\<close> or \<open>b\<close>, and \<open>lower\<close> is only
  compared with the ASCII word \<open>default\<close>, where no other character matters.
\<close>

definition upper_chr :: "char \<Rightarrow> char" where
  "upper_chr c = (let n = (of_char c :: nat)
                  in if 97 \<le> n \<and> n \<le> 122 then char_of (n - 32) else c)"

definition lower_chr :: "char \<Rightarrow> char" where
  "lower_chr c = (let n = (of_char c :: nat)
                  in if 65 \<le> n \<and> n \<le> 90 then char_of (n + 32) else c)"

definition upper :: "string \<Rightarrow> string" where
  "upper s = map upper_chr s"

definition lower :: "string \<Rightarrow> string" where
  "lower s = map lower_chr s"

text \<open>\<open>sub in s\<close> on strings: \<open>sub\<close> occurs in \<open>s\<close> as a contiguous run.\<close>

fun startswith :: "string \<Rightarrow> string \<Rightarrow> bool" where
  "startswith s [] = True"
| "startswith [] (c # sub) = False"
| "startswith (d # s) (c # sub) = (d = c \<and> startswith s sub)"

fun str_in :: "string \<Rightarrow> string \<Rightarrow> bool" where
  "str_in sub [] = (sub = [])"
| "str_in sub (c # s) = (startswith (c # s) sub \<or> str_in sub s)"

subsection \<open>\<open>int(s)\<close> on a string\<close>

text \<open>
  \<open>int(s)\<close> strips white space, reads an optional sign and then decimal digits, where
  single underscores may stand between two digits. Anything else raises
  \<open>ValueError\<close>, which is \<open>None\<close> here.
\<close>

fun int_digits :: "nat \<Rightarrow> bool \<Rightarrow> string \<Rightarrow> nat option" where
  "int_digits acc prev [] = (if prev then Some acc else None)"
| "int_digits acc prev (c # cs) =
     (if decimal c then int_digits (10 * acc + (of_char c - 48)) True cs
      else if c = CHR ''_'' \<and> prev \<and> cs \<noteq> [] \<and> decimal (hd cs) then int_digits acc False cs
      else None)"

definition py_int :: "string \<Rightarrow> int option" where
  "py_int s =
     (case strip s of
        [] \<Rightarrow> None
      | c # cs \<Rightarrow>
          if c = CHR ''+'' then map_option int (int_digits 0 False cs)
          else if c = CHR ''-'' then map_option (\<lambda>n. - int n) (int_digits 0 False cs)
          else map_option int (int_digits 0 False (c # cs)))"

subsection \<open>The literals \<open>float(s)\<close> accepts\<close>

text \<open>
  \<open>float(s)\<close> strips white space, checks that every underscore stands between two
  digits and removes it, and then wants an optional sign followed by \<open>inf\<close>,
  \<open>infinity\<close>, \<open>nan\<close> (in any case) or by a decimal number: digits with an optional
  point, at least one digit on one side of it, and an optional exponent \<open>e\<close> or \<open>E\<close>
  with an optional sign and at least one digit.
\<close>

fun underscores_ok :: "char \<Rightarrow> string \<Rightarrow> bool" where
  "underscores_ok prev [] = (prev \<noteq> CHR ''_'')"
| "underscores_ok prev (c # cs) =
     (if c = CHR ''_'' then decimal prev \<and> underscores_ok c cs
      else if prev = CHR ''_'' then decimal c \<and> underscores_ok c cs
      else underscores_ok c cs)"

definition unsigned :: "string \<Rightarrow> string" where
  "unsigned s = (case s of [] \<Rightarrow> [] | c # cs \<Rightarrow> if c = CHR ''+'' \<or> c = CHR ''-'' then cs else s)"

definition exponent_ok :: "string \<Rightarrow> bool" where
  "exponent_ok s =
     (case s of
        [] \<Rightarrow> True
      | c # cs \<Rightarrow> (c = CHR ''e'' \<or> c = CHR ''E'') \<and> unsigned cs \<noteq> [] \<and> list_all decimal (unsigned cs))"

definition number_ok :: "string \<Rightarrow> bool" where
  "number_ok s =
     (let ip = takeWhile decimal s; r = dropWhile decimal s
      in case r of
           [] \<Rightarrow> ip \<noteq> []
         | c # cs \<Rightarrow>
             if c = CHR ''.''
             then (ip \<noteq> [] \<or> takeWhile decimal cs \<noteq> []) \<and> exponent_ok (dropWhile decimal cs)
             else ip \<noteq> [] \<and> exponent_ok r)"

definition float_literal :: "string \<Rightarrow> bool" where
  "float_literal s =
     (let t = strip s; u = unsigned (filter (\<lambda>c. c \<noteq> CHR ''_'') t)
      in underscores_ok (CHR 0x00) t
         \<and> (lower u = ''inf'' \<or> lower u = ''infinity'' \<or> lower u = ''nan'' \<or> number_ok u))"

subsection \<open>Python's \<open>==\<close> on the values that are compared\<close>

text \<open>
  Equal strings, equal integers, equal floats, an integer and a float of the same
  numeric value, and \<open>None\<close> with itself; values of different kinds are unequal.
\<close>

fun py_eq :: "('f \<Rightarrow> int \<Rightarrow> bool) \<Rightarrow> 'f pyval \<Rightarrow> 'f pyval \<Rightarrow> bool" where
  "py_eq feq PNone PNone = True"
| "py_eq feq (PStr a) (PStr b) = (a = b)"
| "py_eq feq (PInt a) (PInt b) = (a = b)"
| "py_eq feq (PFloat a) (PFloat b) = (a = b)"
| "py_eq feq (PFloat a) (PInt b) = feq a b"
| "py_eq feq (PInt a) (PFloat b) = feq b a"
| "py_eq feq _ _ = False"

section \<open>The value normalizer: \<open>pretty_to_bytes\<close>\<close>

text \<open>
  The function takes \<open>None\<close> (no value given), or a string. The try/except around
  \<open>int()\<close> catches \<open>ValueError\<close> and tries \<open>float()\<close>, whose own \<open>ValueError\<close> is not
  caught; nor is that of \<open>int()\<close> on the leading digits. \<open>Inl ValueError\<close> is the
  exception leaving the function.
\<close>

definition num_part :: "string \<Rightarrow> string" where
  "num_part pretty_val = takeWhile isdigit pretty_val"

definition last2 :: "string \<Rightarrow> string" where
  "last2 s = drop (length s - 2) s"

definition suffix_bytes :: "string \<Rightarrow> int \<Rightarrow> int option" where
  "suffix_bytes pretty_val n =
     (if length pretty_val \<ge> 2 then
        if str_in ''kB'' (last2 pretty_val) then Some (n * 1024)
        else if str_in ''MB'' (last2 pretty_val) then Some (n * 1024 * 1024)
        else if str_in ''GB'' (last2 pretty_val) then Some (n * 1024 * 1024 * 1024)
        else if str_in ''TB'' (last2 pretty_val) then Some (n * 1024 * 1024 * 1024 * 1024)
        else None
      else None)"

definition pretty_to_bytes :: "(string \<Rightarrow> 'f) \<Rightarrow> string option \<Rightarrow> exn + 'f pyval" where
  "pretty_to_bytes float_of pv =
     (case pv of
        None \<Rightarrow> Inr PNone
      | Some pretty_val \<Rightarrow>
          if pretty_val = [] then Inr (PStr pretty_val)
          else if \<not> isdigit (hd pretty_val) then Inr (PStr pretty_val)
          else if \<not> isalpha (last pretty_val) then
            (case py_int pretty_val of
               Some i \<Rightarrow> Inr (PInt i)
             | None \<Rightarrow> if float_literal pretty_val then Inr (PFloat (float_of pretty_val))
                       else Inl ValueError)
          else
            (case py_int (num_part pretty_val) of
               None \<Rightarrow> Inl ValueError
             | Some n \<Rightarrow>
                 (let val_in_bytes = suffix_bytes pretty_val n;
                      val_in_bytes = (if (val_in_bytes = None \<or> val_in_bytes = Some 0)
                                         \<and> str_in ''B'' [last pretty_val]
                                      then Some n else val_in_bytes)
                  in case val_in_bytes of
                       Some b \<Rightarrow> Inr (PInt b)
                     | None \<Rightarrow> Inr (PStr pretty_val))))"

text \<open>\<open>str(i)\<close> on an integer: its decimal digits, with a minus sign if negative.\<close>

fun digits10 :: "nat \<Rightarrow> string" where
  "digits10 n = (if n < 10 then [char_of (48 + n)]
                 else digits10 (n div 10) @ [char_of (48 + n mod 10)])"

declare digits10.simps [simp del]

definition str_int :: "int \<Rightarrow> string" where
  "str_int i = (if i < 0 then CHR ''-'' # digits10 (nat (- i)) else digits10 (nat i))"

section \<open>The server, the module and what a run produces\<close>

text \<open>
  A row of \<open>pg_settings\<close> as the query of \<open>param_get\<close> selects it (the \<open>name\<close> column
  is not read again); \<open>unit\<close> may be NULL, \<open>setting\<close> and \<open>boot_val\<close> are strings.
\<close>

record pg_row =
  row_setting :: string
  row_unit :: "string option"
  row_context :: string
  row_boot_val :: string

text \<open>
  \<open>raw_val\<close> and \<open>boot_val\<close> are the strings of the row, or integers once scaled to
  bytes; Python's \<open>==\<close> on them is equality of this type.
\<close>

datatype raw = RStr string | RInt int

record param_info =
  info_current_val :: string
  info_raw_val :: raw
  info_unit :: "string option"
  info_boot_val :: raw
  info_context :: string

text \<open>
  What the module is given. The database is a state of type \<open>'s\<close> behind the calls
  the module makes: \<open>connect_to_db\<close> (with \<open>ensure_required_libs\<close> and
  \<open>get_conn_params\<close>; \<open>Some msg\<close> when it fails the module), \<open>server_version\<close>, the
  two queries of \<open>param_get\<close> and \<open>execute\<close> for a command (\<open>Inl\<close> is the text of
  the exception psycopg2 raises). \<open>check_input\<close> is the sanitizer of
  \<open>module_utils.database\<close> (\<open>Some msg\<close> when it fails the module).
\<close>

record ('s, 'f) env =
  float_of :: "string \<Rightarrow> 'f"
  float_eq_int :: "'f \<Rightarrow> int \<Rightarrow> bool"
  check_input :: "string \<Rightarrow> string option \<Rightarrow> string option \<Rightarrow> string option"
  connect_to_db :: "'s \<Rightarrow> string option"
  server_version :: "'s \<Rightarrow> int"
  select_pg_settings :: "'s \<Rightarrow> string \<Rightarrow> string + pg_row option"
  show_param :: "'s \<Rightarrow> string \<Rightarrow> string + string"
  execute :: "'s \<Rightarrow> string \<Rightarrow> string + 's"

record module_args =
  p_name :: string
  p_value :: "string option"
  p_reset :: bool
  p_session_role :: "string option"
  p_trust_input :: bool
  p_check_mode :: bool

text \<open>
  The dictionary \<open>kw\<close> given to \<open>exit_json\<close>. A key that was never assigned is
  \<open>None\<close>; \<open>value_pretty\<close> may hold Python's \<open>None\<close>, which is \<open>None\<close> as well.
\<close>

record kw =
  kw_name :: string
  kw_changed :: "bool option"
  kw_restart_required :: bool
  kw_prev_val_pretty :: string
  kw_value_pretty :: "string option"
  kw_value :: "(raw \<times> string option) option"
  kw_context :: "string option"

text \<open>
  How a call ends: it returns, \<open>module.fail_json\<close> ends the run with a message, or
  an exception that nothing catches leaves it.
\<close>

datatype 'a ret = Return 'a | Fail_json string | Raised exn

text \<open>What the run did to the outside, in order.\<close>

datatype event =
    Connect
  | Close
  | Select_pg_settings string
  | Show string
  | Execute string
  | Warn string

definition PG_REQ_VER :: int where
  "PG_REQ_VER = 90400"

definition LOWERCASE_SIZE_UNITS :: "string list" where
  "LOWERCASE_SIZE_UNITS = [''mb'', ''gb'', ''tb'']"

section \<open>\<open>param_get\<close>\<close>

definition unable_msg :: "string \<Rightarrow> string \<Rightarrow> string" where
  "unable_msg name e = ''Unable to get '' @ name @ '' value due to : '' @ e"

definition no_such_parameter_msg :: "string \<Rightarrow> string" where
  "no_such_parameter_msg name =
     ''No such parameter: '' @ name @ ''. Please check its spelling or presence in your PostgreSQL version (https://www.postgresql.org/docs/current/runtime-config.html)''"

text \<open>The two aliases of lines 221--224 and 411--414.\<close>

definition normalize_bool :: "string \<Rightarrow> string" where
  "normalize_bool v = (if v = ''True'' then ''on'' else if v = ''False'' then ''off'' else v)"

text \<open>
  \<open>if int(v) > 0: v = int(v) * k\<close>: a value that is not positive stays the string
  it was; \<open>int()\<close> may raise.
\<close>

definition scale :: "int \<Rightarrow> string \<Rightarrow> raw ret" where
  "scale k v = (case py_int v of
                  None \<Rightarrow> Raised ValueError
                | Some n \<Rightarrow> Return (if n > 0 then RInt (n * k) else RStr v))"

definition scale_row :: "int \<Rightarrow> string \<Rightarrow> pg_row \<Rightarrow> param_info ret" where
  "scale_row k cur row =
     (case scale k (row_setting row) of
        Raised e \<Rightarrow> Raised e
      | Fail_json m \<Rightarrow> Fail_json m
      | Return raw_val \<Rightarrow>
          (case scale k (row_boot_val row) of
             Raised e \<Rightarrow> Raised e
           | Fail_json m \<Rightarrow> Fail_json m
           | Return boot_val \<Rightarrow>
               Return \<lparr>info_current_val = cur, info_raw_val = raw_val, info_unit = Some ''b'',
                       info_boot_val = boot_val, info_context = row_context row\<rparr>))"

definition param_get :: "('s, 'f) env \<Rightarrow> 's \<Rightarrow> string \<Rightarrow> event list \<times> param_info ret" where
  "param_get env st name =
     (case select_pg_settings env st name of
        Inl e \<Rightarrow> ([Select_pg_settings name], Fail_json (unable_msg name e))
      | Inr info \<Rightarrow>
          (case show_param env st name of
             Inl e \<Rightarrow> ([Select_pg_settings name, Show name], Fail_json (unable_msg name e))
           | Inr val \<Rightarrow>
               ([Select_pg_settings name, Show name],
                (case info of
                   None \<Rightarrow> Fail_json (no_such_parameter_msg name)
                 | Some row \<Rightarrow>
                     if row_unit row = Some ''kB'' then scale_row 1024 (normalize_bool val) row
                     else if row_unit row = Some ''MB'' then scale_row (1024 * 1024) (normalize_bool val) row
                     else Return \<lparr>info_current_val = normalize_bool val,
                                  info_raw_val = RStr (row_setting row),
                                  info_unit = row_unit row,
                                  info_boot_val = RStr (row_boot_val row),
                                  info_context = row_context row\<rparr>))))"

section \<open>\<open>param_set\<close>\<close>

definition py_str :: "raw \<Rightarrow> string" where
  "py_str v = (case v of RStr s \<Rightarrow> s | RInt i \<Rightarrow> str_int i)"

definition alter_system :: "string \<Rightarrow> raw \<Rightarrow> string" where
  "alter_system name v =
     (if lower (py_str v) = ''default'' then ''ALTER SYSTEM SET '' @ name @ '' = DEFAULT''
      else ''ALTER SYSTEM SET '' @ name @ '' = '' @ [CHR 0x27] @ py_str v @ [CHR 0x27])"

definition reload_conf :: string where
  "reload_conf = ''SELECT pg_reload_conf()''"

definition param_set ::
  "('s, 'f) env \<Rightarrow> 's \<Rightarrow> string \<Rightarrow> raw \<Rightarrow> string \<Rightarrow> 's \<times> event list \<times> bool ret" where
  "param_set env st name v context =
     (case execute env st (alter_system name v) of
        Inl e \<Rightarrow> (st, [Execute (alter_system name v)], Fail_json (unable_msg name e))
      | Inr st1 \<Rightarrow>
          if context \<noteq> ''postmaster'' then
            (case execute env st1 reload_conf of
               Inl e \<Rightarrow> (st1, [Execute (alter_system name v), Execute reload_conf],
                          Fail_json (unable_msg name e))
             | Inr st2 \<Rightarrow> (st2, [Execute (alter_system name v), Execute reload_conf], Return True))
          else (st1, [Execute (alter_system name v)], Return True))"

section \<open>\<open>main\<close>\<close>

definition mutually_exclusive_msg :: "string \<Rightarrow> string" where
  "mutually_exclusive_msg name = name @ '': value and reset params are mutually exclusive''"

definition missing_input_msg :: "string \<Rightarrow> string" where
  "missing_input_msg name = name @ '': at least one of value or reset param must be specified''"

definition internal_context_msg :: "string \<Rightarrow> string" where
  "internal_context_msg name =
     name @ '': cannot be changed (internal context). See https://www.postgresql.org/docs/current/runtime-config-preset.html''"

definition version_msg :: "int \<Rightarrow> string" where
  "version_msg ver =
     ''PostgreSQL is '' @ str_int ver @ '' version but '' @ str_int PG_REQ_VER @ '' or later is required''"

definition restart_msg :: "string \<Rightarrow> string" where
  "restart_msg name = ''Restart of PostgreSQL is required for setting '' @ name"

text \<open>Lines 360--367: \<open>1mb\<close> becomes \<open>1MB\<close>, \<open>1b\<close> becomes \<open>1B\<close>.\<close>

definition shorthand :: "string option \<Rightarrow> string option" where
  "shorthand value =
     (case value of
        None \<Rightarrow> None
      | Some v \<Rightarrow>
          if v = [] then Some v
          else if length v > 2 \<and> str_isdigit (take (length v - 2) v)
                  \<and> last2 v \<in> set LOWERCASE_SIZE_UNITS then Some (upper v)
          else if length v > 1 \<and> (str_in ''b'' [last v] \<and> str_isdigit (butlast v)) then Some (upper v)
          else Some v)"

text \<open>Lines 386--393: the result below the required server version.\<close>

definition version_kw :: "string \<Rightarrow> kw" where
  "version_kw name =
     \<lparr>kw_name = name, kw_changed = Some False, kw_restart_required = False,
      kw_prev_val_pretty = '''', kw_value_pretty = Some '''',
      kw_value = Some (RStr '''', Some ''''), kw_context = None\<rparr>"

text \<open>Lines 400--418: \<open>kw\<close> once the state of the parameter has been read.\<close>

definition initial_kw :: "string \<Rightarrow> param_info \<Rightarrow> kw" where
  "initial_kw name res =
     \<lparr>kw_name = name, kw_changed = None, kw_restart_required = False,
      kw_prev_val_pretty = info_current_val res, kw_value_pretty = Some (info_current_val res),
      kw_value = None, kw_context = Some (info_context res)\<rparr>"

text \<open>Lines 429--443: in check mode, compare and exit.\<close>

definition check_mode_exit ::
  "('s, 'f) env \<Rightarrow> string option \<Rightarrow> param_info \<Rightarrow> kw \<Rightarrow> bool \<Rightarrow> kw ret" where
  "check_mode_exit env value res kw0 restart_required =
     (case pretty_to_bytes (float_of env) value of
        Inl e \<Rightarrow> Raised e
      | Inr a \<Rightarrow>
          (case pretty_to_bytes (float_of env) (Some (info_current_val res)) of
             Inl e \<Rightarrow> Raised e
           | Inr b \<Rightarrow>
               Return ((if py_eq (float_eq_int env) a b then kw0\<lparr>kw_changed := Some False\<rparr>
                        else kw0\<lparr>kw_value_pretty := value, kw_changed := Some True\<rparr>)
                       \<lparr>kw_value := Some (info_raw_val res, info_unit res),
                        kw_restart_required := restart_required\<rparr>)))"

text \<open>Lines 491--497: the last assignments, the warning and the exit.\<close>

definition exit_run ::
  "'s \<Rightarrow> event list \<Rightarrow> string \<Rightarrow> kw \<Rightarrow> bool \<Rightarrow> bool \<Rightarrow> 's \<times> event list \<times> kw ret" where
  "exit_run st log name kw0 changed restart_required =
     (st,
      (if restart_required \<and> changed then log @ [Warn (restart_msg name)] else log),
      Return (kw0\<lparr>kw_changed := Some changed, kw_restart_required := restart_required\<rparr>))"

text \<open>Lines 463--497: close, reconnect and recheck for the reloadable contexts, exit.\<close>

definition recheck ::
  "('s, 'f) env \<Rightarrow> 's \<Rightarrow> event list \<Rightarrow> string \<Rightarrow> param_info \<Rightarrow> kw \<Rightarrow> bool \<Rightarrow> bool
     \<Rightarrow> 's \<times> event list \<times> kw ret" where
  "recheck env st log name res kw0 changed restart_required =
     (if info_context res \<in> set [''sighup'', ''superuser-backend'', ''backend'', ''superuser'', ''user'']
      then
        (case connect_to_db env st of
           Some m \<Rightarrow> (st, log @ [Close, Connect], Fail_json m)
         | None \<Rightarrow>
             (case param_get env st name of
                (evs, Fail_json m) \<Rightarrow> (st, log @ [Close, Connect] @ evs, Fail_json m)
              | (evs, Raised e) \<Rightarrow> (st, log @ [Close, Connect] @ evs, Raised e)
              | (evs, Return res2) \<Rightarrow>
                  exit_run st (log @ [Close, Connect] @ evs @ [Close]) name
                    (kw0\<lparr>kw_value_pretty := Some (info_current_val res2),
                         kw_value := Some (info_raw_val res2, info_unit res)\<rparr>)
                    (info_raw_val res \<noteq> info_raw_val res2) restart_required))
      else exit_run st (log @ [Close]) name kw0 changed restart_required)"

text \<open>\<open>changed = param_set(...)\<close> followed by the recheck, when \<open>param_set\<close> returns.\<close>

definition set_and_recheck ::
  "('s, 'f) env \<Rightarrow> 's \<Rightarrow> event list \<Rightarrow> string \<Rightarrow> raw \<Rightarrow> param_info \<Rightarrow> kw \<Rightarrow> bool
     \<Rightarrow> 's \<times> event list \<times> kw ret" where
  "set_and_recheck env st log name v res kw0 restart_required =
     (case param_set env st name v (info_context res) of
        (st1, evs, Fail_json m) \<Rightarrow> (st1, log @ evs, Fail_json m)
      | (st1, evs, Raised e) \<Rightarrow> (st1, log @ evs, Raised e)
      | (st1, evs, Return changed) \<Rightarrow>
          recheck env st1 (log @ evs) name res kw0 changed restart_required)"

text \<open>Lines 451--461 and the fall through: reset the parameter, or leave it.\<close>

definition reset_mode ::
  "('s, 'f) env \<Rightarrow> 's \<Rightarrow> event list \<Rightarrow> string \<Rightarrow> bool \<Rightarrow> param_info \<Rightarrow> kw \<Rightarrow> bool
     \<Rightarrow> 's \<times> event list \<times> kw ret" where
  "reset_mode env st log name reset res kw0 restart_required =
     (if reset then
        if info_raw_val res = info_boot_val res
        then (st, log, Return (kw0\<lparr>kw_value := Some (info_raw_val res, info_unit res)\<rparr>))
        else set_and_recheck env st log name (info_boot_val res) res kw0 restart_required
      else recheck env st log name res kw0 False restart_required)"

text \<open>
  Lines 445--497: \<open>if value is not None and value != current_val\<close> sets the
  parameter, \<open>elif reset\<close> resets it.
\<close>

definition execute_mode ::
  "('s, 'f) env \<Rightarrow> 's \<Rightarrow> event list \<Rightarrow> string \<Rightarrow> string option \<Rightarrow> bool \<Rightarrow> param_info \<Rightarrow> kw
     \<Rightarrow> bool \<Rightarrow> 's \<times> event list \<times> kw ret" where
  "execute_mode env st log name value reset res kw0 restart_required =
     (case value of
        None \<Rightarrow> reset_mode env st log name reset res kw0 restart_required
      | Some v \<Rightarrow>
          if v \<noteq> info_current_val res
          then set_and_recheck env st log name (RStr v) res
                 (kw0\<lparr>kw_value_pretty := value\<rparr>) restart_required
          else reset_mode env st log name reset res kw0 restart_required)"

text \<open>Lines 397--497: the run once the connection is open and the version is accepted.\<close>

definition reconcile ::
  "('s, 'f) env \<Rightarrow> bool \<Rightarrow> 's \<Rightarrow> string \<Rightarrow> string option \<Rightarrow> bool \<Rightarrow> 's \<times> event list \<times> kw ret" where
  "reconcile env check_mode st name value0 reset =
     (case param_get env st name of
        (evs, Fail_json m) \<Rightarrow> (st, Connect # evs, Fail_json m)
      | (evs, Raised e) \<Rightarrow> (st, Connect # evs, Raised e)
      | (evs, Return res) \<Rightarrow>
          (let value = map_option normalize_bool value0;
               kw0 = initial_kw name res
           in if info_context res = ''internal''
              then (st, Connect # evs, Fail_json (internal_context_msg name))
              else
                (let restart_required = (info_context res = ''postmaster'')
                 in if check_mode
                    then (st, Connect # evs, check_mode_exit env value res kw0 restart_required)
                    else execute_mode env st (Connect # evs) name value reset res kw0
                           restart_required)))"

definition main :: "('s, 'f) env \<Rightarrow> module_args \<Rightarrow> 's \<Rightarrow> 's \<times> event list \<times> kw ret" where
  "main env p st =
     (case (if p_trust_input p then None
            else check_input env (p_name p) (p_value p) (p_session_role p)) of
        Some m \<Rightarrow> (st, [], Fail_json m)
      | None \<Rightarrow>
          (let value = shorthand (p_value p)
           in if value \<noteq> None \<and> p_reset p
              then (st, [], Fail_json (mutually_exclusive_msg (p_name p)))
              else if value = None \<and> \<not> p_reset p
              then (st, [], Fail_json (missing_input_msg (p_name p)))
              else
                (case connect_to_db env st of
                   Some m \<Rightarrow> (st, [Connect], Fail_json m)
                 | None \<Rightarrow>
                     if server_version env st < PG_REQ_VER
                     then (st, [Connect, Warn (version_msg (server_version env st)), Close],
                           Return (version_kw (p_name p)))
                     else reconcile env (p_check_mode p) st (p_name p) value (p_reset p))))"

section \<open>A scripted server\<close>

text \<open>
  A server to run the module against: its state is the list of commands it has
  executed, it knows one parameter, and it answers the two queries of \<open>param_get\<close>
  with \<open>pre\<close> until a reload has been executed and with \<open>post\<close> from then on.
  Every command succeeds. No float arises in the runs below; the float of a literal
  is kept as the literal.
\<close>

definition reloaded :: "string list \<Rightarrow> bool" where
  "reloaded st = (reload_conf \<in> set st)"

definition scripted ::
  "int \<Rightarrow> string \<Rightarrow> pg_row \<times> string \<Rightarrow> pg_row \<times> string \<Rightarrow> (string list, string) env" where
  "scripted ver param pre post =
     \<lparr>float_of = (\<lambda>s. s),
      float_eq_int = (\<lambda>f i. False),
      check_input = (\<lambda>name value session_role. None),
      connect_to_db = (\<lambda>st. None),
      server_version = (\<lambda>st. ver),
      select_pg_settings = (\<lambda>st name. Inr (if name = param
                                             then Some (fst (if reloaded st then post else pre))
                                             else None)),
      show_param = (\<lambda>st name. if name = param
                               then Inr (snd (if reloaded st then post else pre))
                               else Inl (''unrecognized configuration parameter '' @ name)),
      execute = (\<lambda>st q. Inr (st @ [q]))\<rparr>"

text \<open>
  The same server for a role that may not alter the system: every command raises.
\<close>

definition refusing :: "('s, 'f) env \<Rightarrow> ('s, 'f) env" where
  "refusing env =
     env\<lparr>execute := (\<lambda>st q. Inl ''must be superuser to execute ALTER SYSTEM command'')\<rparr>"

section \<open>Vocabulary of the statements\<close>

text \<open>
  The run gets as far as \<open>param_get\<close>: the sanitizer, if asked for, accepts the
  input, exactly one of \<open>value\<close> and \<open>reset\<close> is given, the connection opens and the
  server is of version 9.4 or later.
\<close>

definition reaches_param_get :: "('s, 'f) env \<Rightarrow> module_args \<Rightarrow> 's \<Rightarrow> bool" where
  "reaches_param_get env p st =
     ((p_trust_input p \<or> check_input env (p_name p) (p_value p) (p_session_role p) = None)
      \<and> (p_value p = None) = p_reset p
      \<and> connect_to_db env st = None
      \<and> PG_REQ_VER \<le> server_version env st)"

text \<open>The desired value as \<open>main\<close> compares and submits it (lines 360--367, 411--414).\<close>

definition desired_value :: "module_args \<Rightarrow> string option" where
  "desired_value p = map_option normalize_bool (shorthand (p_value p))"

text \<open>The number of times the log reads the parameter, and the commands in it.\<close>

fun is_fetch :: "event \<Rightarrow> bool" where
  "is_fetch (Select_pg_settings name) = True"
| "is_fetch e = False"

definition fetches :: "event list \<Rightarrow> nat" where
  "fetches log = length (filter is_fetch log)"

fun is_command :: "event \<Rightarrow> bool" where
  "is_command (Execute q) = True"
| "is_command e = False"

definition commands :: "event list \<Rightarrow> event list" where
  "commands log = filter is_command log"

definition reloadable :: "string list" where
  "reloadable = [''sighup'', ''superuser-backend'', ''backend'', ''superuser'', ''user'']"

text \<open>Tasks and parameters for the scripted server.\<close>

definition task :: "string \<Rightarrow> string option \<Rightarrow> bool \<Rightarrow> bool \<Rightarrow> module_args" where
  "task name value reset check_mode =
     \<lparr>p_name = name, p_value = value, p_reset = reset, p_session_role = None,
      p_trust_input = True, p_check_mode = check_mode\<rparr>"

definition work_mem_1024MB :: "pg_row \<times> string" where
  "work_mem_1024MB =
     (\<lparr>row_setting = ''1048576'', row_unit = Some ''kB'', row_context = ''user'',
       row_boot_val = ''4096''\<rparr>, ''1024MB'')"

definition work_mem_4MB :: "pg_row \<times> string" where
  "work_mem_4MB =
     (\<lparr>row_setting = ''4096'', row_unit = Some ''kB'', row_context = ''user'',
       row_boot_val = ''4096''\<rparr>, ''4MB'')"

definition work_mem_32MB :: "pg_row \<times> string" where
  "work_mem_32MB =
     (\<lparr>row_setting = ''32768'', row_unit = Some ''kB'', row_context = ''user'',
       row_boot_val = ''4096''\<rparr>, ''32MB'')"

definition max_connections_100 :: "pg_row \<times> string" where
  "max_connections_100 =
     (\<lparr>row_setting = ''100'', row_unit = None, row_context = ''postmaster'',
       row_boot_val = ''100''\<rparr>, ''100'')"

definition log_temp_files_off :: "pg_row \<times> string" where
  "log_temp_files_off =
     (\<lparr>row_setting = ''-1'', row_unit = Some ''kB'', row_context = ''superuser'',
       row_boot_val = ''-1''\<rparr>, ''-1'')"

definition listen_addresses_localhost :: "pg_row \<times> string" where
  "listen_addresses_localhost =
     (\<lparr>row_setting = ''localhost'', row_unit = None, row_context = ''postmaster'',
       row_boot_val = ''localhost''\<rparr>, ''localhost'')"

definition listen_addresses_any :: "pg_row \<times> string" where
  "listen_addresses_any =
     (\<lparr>row_setting = ''0.0.0.0'', row_unit = None, row_context = ''postmaster'',
       row_boot_val = ''localhost''\<rparr>, ''0.0.0.0'')"

definition server_version_num_14 :: "pg_row \<times> string" where
  "server_version_num_14 =
     (\<lparr>row_setting = ''140005'', row_unit = None, row_context = ''internal'',
       row_boot_val = ''140005''\<rparr>, ''140005'')"

definition fsync_on :: "pg_row \<times> string" where
  "fsync_on =
     (\<lparr>row_setting = ''on'', row_unit = None, row_context = ''sighup'',
       row_boot_val = ''on''\<rparr>, ''on'')"

section \<open>Evaluation rules\<close>

lemmas chr_defs = isdigit_def isalpha_def isspace_def decimal_def

lemmas ptb_defs =
  pretty_to_bytes_def py_int_def strip_def num_part_def suffix_bytes_def last2_def
  float_literal_def number_ok_def exponent_ok_def unsigned_def lower_def lower_chr_def

lemmas run_defs =
  main_def reconcile_def execute_mode_def reset_mode_def set_and_recheck_def recheck_def
  exit_run_def check_mode_exit_def initial_kw_def version_kw_def shorthand_def param_get_def
  param_set_def scale_row_def scale_def normalize_bool_def reload_conf_def alter_system_def
  py_str_def upper_def upper_chr_def str_isdigit_def LOWERCASE_SIZE_UNITS_def PG_REQ_VER_def
  desired_value_def reaches_param_get_def

lemmas server_defs = scripted_def reloaded_def task_def

lemmas char_eval = char_of_def bit_Suc_0_iff

lemmas eval_defs = run_defs server_defs ptb_defs chr_defs char_eval

section \<open>Properties of \<open>pretty_to_bytes\<close>\<close>

lemma digit_not_alpha: "isdigit c \<Longrightarrow> \<not> isalpha c"
  by (auto simp: isdigit_def isalpha_def Let_def)

lemma digit_alpha_length:
  assumes "s \<noteq> []" "isdigit (hd s)" "isalpha (last s)"
  shows "2 \<le> length s"
proof (cases s)
  case Nil
  with assms show ?thesis by simp
next
  case (Cons c cs)
  show ?thesis
  proof (cases cs)
    case Nil
    with Cons assms digit_not_alpha [of c] show ?thesis by simp
  next
    case (Cons d ds)
    with \<open>s = c # cs\<close> show ?thesis by simp
  qed
qed

lemma str_in_B: "str_in ''B'' [c] = (c = CHR ''B'')"
  by auto

lemma str_in_two: "length t = 2 \<Longrightarrow> str_in [a, b] t = (t = [a, b])"
  by (cases t; cases "tl t"; auto)

lemma last2_length: "2 \<le> length s \<Longrightarrow> length (last2 s) = 2"
  by (simp add: last2_def)

text \<open>
  \<open>int()\<close> returns on every non-empty run of ASCII digits, so the digit prefix of a
  literal that starts with one of them has an integer value.
\<close>

lemma decimal_not_space: "decimal c \<Longrightarrow> \<not> isspace c"
  by (auto simp: decimal_def isspace_def Let_def)

lemma strip_decimal:
  assumes "list_all decimal cs"
  shows "strip cs = cs"
proof (cases "cs = []")
  case True
  then show ?thesis by (simp add: strip_def)
next
  case False
  with assms have h: "\<not> isspace (hd cs)" and l: "\<not> isspace (last cs)"
    by (auto simp: list_all_iff decimal_not_space)
  from h False have a: "dropWhile isspace cs = cs"
    by (cases cs) auto
  from l False have b: "dropWhile isspace (rev cs) = rev cs"
    by (cases "rev cs") (auto simp: last_rev hd_rev)
  show ?thesis by (simp add: strip_def a b)
qed

lemma int_digits_decimal:
  "list_all decimal cs \<Longrightarrow> cs \<noteq> [] \<or> prev \<Longrightarrow> \<exists>n. int_digits acc prev cs = Some n"
  by (induction cs arbitrary: acc prev) auto

lemma py_int_decimal:
  assumes "list_all decimal cs" "cs \<noteq> []"
  shows "\<exists>n. py_int cs = Some n"
proof -
  obtain c cs' where cs: "cs = c # cs'" using assms(2) by (cases cs) auto
  have d: "decimal c" using assms(1) cs by simp
  then have "c \<noteq> CHR ''+''" "c \<noteq> CHR ''-''" by (auto simp: decimal_def)
  moreover obtain n where "int_digits 0 False cs = Some n"
    using int_digits_decimal [OF assms(1), of False 0] assms(2) by auto
  ultimately show ?thesis
    using strip_decimal [OF assms(1)] cs by (simp add: py_int_def)
qed

lemma num_part_nonempty: "s \<noteq> [] \<Longrightarrow> isdigit (hd s) \<Longrightarrow> num_part s \<noteq> []"
  by (cases s) (auto simp: num_part_def)

lemma pretty_to_bytes_suffix_in:
  assumes "s \<noteq> []" "isdigit (hd s)" "isalpha (last s)" "py_int (num_part s) = Some n"
  shows "pretty_to_bytes f (Some s) =
           Inr (if str_in ''kB'' (last2 s) then PInt (n * 1024 ^ 1)
                else if str_in ''MB'' (last2 s) then PInt (n * 1024 ^ 2)
                else if str_in ''GB'' (last2 s) then PInt (n * 1024 ^ 3)
                else if str_in ''TB'' (last2 s) then PInt (n * 1024 ^ 4)
                else if last s = CHR ''B'' then PInt (n * 1024 ^ 0)
                else PStr s)"
proof -
  have len: "2 \<le> length s" using assms by (simp add: digit_alpha_length)
  show ?thesis
    using assms len
    by (simp add: pretty_to_bytes_def suffix_bytes_def Let_def str_in_B del: str_in.simps)
qed

lemma pretty_to_bytes_suffix:
  assumes "s \<noteq> []" "isdigit (hd s)" "isalpha (last s)" "py_int (num_part s) = Some n"
  shows "pretty_to_bytes f (Some s) =
           Inr (if last2 s = ''kB'' then PInt (n * 1024 ^ 1)
                else if last2 s = ''MB'' then PInt (n * 1024 ^ 2)
                else if last2 s = ''GB'' then PInt (n * 1024 ^ 3)
                else if last2 s = ''TB'' then PInt (n * 1024 ^ 4)
                else if last s = CHR ''B'' then PInt (n * 1024 ^ 0)
                else PStr s)"
proof -
  have "2 \<le> length s" using assms by (simp add: digit_alpha_length)
  then have two: "length (last2 s) = 2" by (rule last2_length)
  have eqs: "str_in ''kB'' (last2 s) = (last2 s = ''kB'')"
            "str_in ''MB'' (last2 s) = (last2 s = ''MB'')"
            "str_in ''GB'' (last2 s) = (last2 s = ''GB'')"
            "str_in ''TB'' (last2 s) = (last2 s = ''TB'')"
    by (rule str_in_two [OF two])+
  show ?thesis
    using pretty_to_bytes_suffix_in [OF assms, of f] by (simp only: eqs)
qed

text \<open>
  What the code returns on the literals whose run of leading digits \<open>int()\<close> accepts:
  \<open>4MB\<close> is 4 * 1024 * 1024 bytes, \<open>1kB\<close> is 1024, the empty literal and \<open>on\<close> come
  back as they are; and for every literal that starts with a digit and ends with a
  letter, with \<open>n\<close> the integer of its leading digits, a bare trailing \<open>B\<close> and the
  last two characters \<open>kB\<close>, \<open>MB\<close>, \<open>GB\<close>, \<open>TB\<close> give \<open>n * 1024^k\<close> for
  \<open>k = 0, 1, 2, 3, 4\<close>, and a literal with none of these suffixes comes back as it
  is. (A test \<open>'kB' in pretty_val[-2:]\<close> on two characters is the equality with
  \<open>kB\<close>.)
\<close>

lemma pretty_to_bytes_units:
  "pretty_to_bytes f (Some ''4MB'') = Inr (PInt (4 * 1024 * 1024))
   \<and> pretty_to_bytes f (Some ''1kB'') = Inr (PInt 1024)
   \<and> pretty_to_bytes f (Some '''') = Inr (PStr '''')
   \<and> pretty_to_bytes f (Some ''on'') = Inr (PStr ''on'')
   \<and> (\<forall>s n. s \<noteq> [] \<and> isdigit (hd s) \<and> isalpha (last s) \<and> py_int (num_part s) = Some n \<longrightarrow>
         pretty_to_bytes f (Some s) =
           Inr (if last2 s = ''kB'' then PInt (n * 1024 ^ 1)
                else if last2 s = ''MB'' then PInt (n * 1024 ^ 2)
                else if last2 s = ''GB'' then PInt (n * 1024 ^ 3)
                else if last2 s = ''TB'' then PInt (n * 1024 ^ 4)
                else if last s = CHR ''B'' then PInt (n * 1024 ^ 0)
                else PStr s))"
proof -
  have "pretty_to_bytes f (Some ''4MB'') = Inr (PInt (4 * 1024 * 1024))"
    by (simp add: ptb_defs chr_defs)
  moreover have "pretty_to_bytes f (Some ''1kB'') = Inr (PInt 1024)"
    by (simp add: ptb_defs chr_defs)
  moreover have "pretty_to_bytes f (Some '''') = Inr (PStr '''')"
    by (simp add: pretty_to_bytes_def)
  moreover have "pretty_to_bytes f (Some ''on'') = Inr (PStr ''on'')"
    by (simp add: pretty_to_bytes_def isdigit_def)
  ultimately show ?thesis
    using pretty_to_bytes_suffix [of _ _ f] by blast
qed

lemma pretty_to_bytes_units_example:
  "''32GB'' \<noteq> [] \<and> isdigit (hd ''32GB'') \<and> isalpha (last ''32GB'')
   \<and> py_int (num_part ''32GB'') = Some 32
   \<and> pretty_to_bytes id (Some ''32GB'') = Inr (PInt (32 * 1024 ^ 3))"
proof -
  have h: "''32GB'' \<noteq> [] \<and> isdigit (hd ''32GB'') \<and> isalpha (last ''32GB'')
           \<and> py_int (num_part ''32GB'') = Some 32"
    by (simp add: py_int_def num_part_def strip_def chr_defs)
  from pretty_to_bytes_units [of id]
  have "''32GB'' \<noteq> [] \<and> isdigit (hd ''32GB'') \<and> isalpha (last ''32GB'')
          \<and> py_int (num_part ''32GB'') = Some 32 \<longrightarrow>
        pretty_to_bytes id (Some ''32GB'') =
          Inr (if last2 ''32GB'' = ''kB'' then PInt (32 * 1024 ^ 1)
               else if last2 ''32GB'' = ''MB'' then PInt (32 * 1024 ^ 2)
               else if last2 ''32GB'' = ''GB'' then PInt (32 * 1024 ^ 3)
               else if last2 ''32GB'' = ''TB'' then PInt (32 * 1024 ^ 4)
               else if last ''32GB'' = CHR ''B'' then PInt (32 * 1024 ^ 0)
               else PStr ''32GB'')"
    by blast
  with h show ?thesis by (simp add: last2_def)
qed

text \<open>
  On the other literals that start with a digit and end with a letter, \<open>int()\<close>
  raises on the run of leading digits (line 286) and nothing catches it.
\<close>

lemma pretty_to_bytes_digit_run:
  assumes "s \<noteq> []" "isdigit (hd s)" "isalpha (last s)" "py_int (num_part s) = None"
  shows "pretty_to_bytes f (Some s) = Inl ValueError"
  using assms by (simp add: pretty_to_bytes_def)

text \<open>
  C8: the claim says that \<open>4MB\<close>, \<open>1kB\<close>, the empty literal and \<open>on\<close> have the
  values above, and that for every literal whose leading characters are digits and
  whose last character is alphabetic the suffixes give the digit prefix times the
  power of 1024. The characters that \<open>isdigit()\<close> accepts include the superscript
  digits, which \<open>int()\<close> rejects. On the literal of the four characters \<open>1\<close>,
  superscript two (code point \<open>0xB2\<close>), \<open>M\<close>, \<open>B\<close> the first character is a digit,
  the last is a letter and the suffix is \<open>MB\<close>; the loop of lines 278--284 collects
  the two leading characters, \<open>int()\<close> raises on them at line 286, and
  \<open>pretty_to_bytes\<close> returns no value where the claim gives the digit prefix times
  1024 * 1024.
\<close>

theorem pretty_to_bytes_digit_run_raises:
  "isdigit (hd [CHR ''1'', CHR 0xB2, CHR ''M'', CHR ''B''])
   \<and> isalpha (last [CHR ''1'', CHR 0xB2, CHR ''M'', CHR ''B''])
   \<and> last2 [CHR ''1'', CHR 0xB2, CHR ''M'', CHR ''B''] = ''MB''
   \<and> num_part [CHR ''1'', CHR 0xB2, CHR ''M'', CHR ''B''] = [CHR ''1'', CHR 0xB2]
   \<and> py_int [CHR ''1'', CHR 0xB2] = None
   \<and> pretty_to_bytes id (Some [CHR ''1'', CHR 0xB2, CHR ''M'', CHR ''B'']) = Inl ValueError"
  by (simp add: ptb_defs chr_defs)

text \<open>
  C10: the claim says that no exception leaves the entry point and that
  \<open>pretty_to_bytes\<close> is total on literals that start with a digit and do not end
  with a letter. The code catches the \<open>ValueError\<close> of \<open>int()\<close> and then calls
  \<open>float()\<close> unguarded: on the address \<open>127.0.0.1\<close> both fail, \<open>pretty_to_bytes\<close>
  raises, and a check-mode run that sets \<open>listen_addresses\<close> to it ends with the
  exception instead of a result or a \<open>fail_json\<close>.
\<close>

theorem pretty_to_bytes_raises:
  "pretty_to_bytes id (Some ''127.0.0.1'') = Inl ValueError
   \<and> main (scripted 140000 ''listen_addresses'' listen_addresses_localhost listen_addresses_localhost)
        (task ''listen_addresses'' (Some ''127.0.0.1'') False True) [] =
       ([], [Connect, Select_pg_settings ''listen_addresses'', Show ''listen_addresses''],
        Raised ValueError)"
  by (simp add: eval_defs listen_addresses_localhost_def)

section \<open>Properties of \<open>param_get\<close>\<close>

lemma param_get_Return_events:
  "param_get env st name = (evs, Return res) \<Longrightarrow> evs = [Select_pg_settings name, Show name]"
  by (auto simp: param_get_def split: sum.splits option.splits if_splits)

lemma fetches_simps [simp]:
  "fetches [] = 0"
  "fetches (Select_pg_settings n # l) = Suc (fetches l)"
  "fetches (Connect # l) = fetches l"
  "fetches (Close # l) = fetches l"
  "fetches (Show n # l) = fetches l"
  "fetches (Execute q # l) = fetches l"
  "fetches (Warn m # l) = fetches l"
  "fetches (a @ b) = fetches a + fetches b"
  by (simp_all add: fetches_def)

lemma commands_simps [simp]:
  "commands [] = []"
  "commands (Select_pg_settings n # l) = commands l"
  "commands (Connect # l) = commands l"
  "commands (Close # l) = commands l"
  "commands (Show n # l) = commands l"
  "commands (Execute q # l) = Execute q # commands l"
  "commands (Warn m # l) = commands l"
  "commands (a @ b) = commands a @ commands b"
  by (simp_all add: commands_def)

lemma param_get_fetches: "fetches (fst (param_get env st name)) = 1"
  by (simp add: param_get_def split: sum.splits option.splits)

lemma param_get_commands: "commands (fst (param_get env st name)) = []"
  by (simp add: param_get_def split: sum.splits option.splits)

lemma param_get_fetches_eq [simp]: "param_get env st name = (evs, r) \<Longrightarrow> fetches evs = 1"
  using param_get_fetches [of env st name] by simp

lemma param_get_commands_eq [simp]: "param_get env st name = (evs, r) \<Longrightarrow> commands evs = []"
  using param_get_commands [of env st name] by simp

text \<open>
  C9, as the claim states it: with the catalog unit \<open>kB\<close>, the returned raw and boot
  values are the catalog values times 1024, also when they are zero or negative.
  \<open>log_temp_files\<close> is \<open>-1\<close> (off) in kilobytes: the unit comes back as bytes, the
  values come back as the catalog strings \<open>-1\<close>, not as \<open>-1024\<close>.
\<close>

theorem param_get_negative_counterexample:
  "snd (param_get (scripted 140000 ''log_temp_files'' log_temp_files_off log_temp_files_off) []
          ''log_temp_files'') =
     Return \<lparr>info_current_val = ''-1'', info_raw_val = RStr ''-1'', info_unit = Some ''b'',
             info_boot_val = RStr ''-1'', info_context = ''superuser''\<rparr>
   \<and> py_int ''-1'' = Some (- 1)
   \<and> RStr ''-1'' \<noteq> RInt (- 1 * 1024)"
  by (simp add: eval_defs log_temp_files_off_def)

text \<open>
  C9, amended: for every parameter that \<open>param_get\<close> finds with the catalog unit
  \<open>kB\<close> or \<open>MB\<close> and integer setting and boot value, the returned unit is \<open>b\<close>, and
  the returned raw value and boot value are the catalog values times 1024 and
  1024 * 1024 respectively when they are positive; a value that is zero or negative
  is returned as the catalog string, unscaled (lines 227--230 and 235--238 guard the
  scaling with \<open>int(v) > 0\<close>).
\<close>

theorem param_get_scaled:
  assumes "select_pg_settings env st name = Inr (Some row)"
    and "show_param env st name = Inr val"
    and "row_unit row = Some ''kB'' \<and> k = 1024 \<or> row_unit row = Some ''MB'' \<and> k = 1024 * 1024"
    and "py_int (row_setting row) = Some a"
    and "py_int (row_boot_val row) = Some b"
  shows "snd (param_get env st name) =
           Return \<lparr>info_current_val = normalize_bool val,
                   info_raw_val = (if 0 < a then RInt (a * k) else RStr (row_setting row)),
                   info_unit = Some ''b'',
                   info_boot_val = (if 0 < b then RInt (b * k) else RStr (row_boot_val row)),
                   info_context = row_context row\<rparr>"
  using assms by (auto simp: param_get_def scale_row_def scale_def)

theorem param_get_scaled_witness:
  "select_pg_settings (scripted 140000 ''work_mem'' work_mem_4MB work_mem_4MB) [] ''work_mem''
     = Inr (Some (fst work_mem_4MB))
   \<and> show_param (scripted 140000 ''work_mem'' work_mem_4MB work_mem_4MB) [] ''work_mem'' = Inr ''4MB''
   \<and> row_unit (fst work_mem_4MB) = Some ''kB''
   \<and> py_int (row_setting (fst work_mem_4MB)) = Some 4096
   \<and> py_int (row_boot_val (fst work_mem_4MB)) = Some 4096
   \<and> snd (param_get (scripted 140000 ''work_mem'' work_mem_4MB work_mem_4MB) [] ''work_mem'') =
       Return \<lparr>info_current_val = ''4MB'', info_raw_val = RInt 4194304, info_unit = Some ''b'',
               info_boot_val = RInt 4194304, info_context = ''user''\<rparr>"
proof -
  let ?env = "scripted 140000 ''work_mem'' work_mem_4MB work_mem_4MB"
  have h1: "select_pg_settings ?env [] ''work_mem'' = Inr (Some (fst work_mem_4MB))"
    by (simp add: server_defs)
  have h2: "show_param ?env [] ''work_mem'' = Inr ''4MB''"
    by (simp add: server_defs work_mem_4MB_def)
  have h3: "row_unit (fst work_mem_4MB) = Some ''kB'' \<and> (1024::int) = 1024
            \<or> row_unit (fst work_mem_4MB) = Some ''MB'' \<and> (1024::int) = 1024 * 1024"
    by (simp add: work_mem_4MB_def)
  have h4: "py_int (row_setting (fst work_mem_4MB)) = Some 4096"
    by (simp add: work_mem_4MB_def py_int_def strip_def chr_defs)
  have h5: "py_int (row_boot_val (fst work_mem_4MB)) = Some 4096"
    by (simp add: work_mem_4MB_def py_int_def strip_def chr_defs)
  note c = param_get_scaled [OF h1 h2 h3 h4 h5]
  have u: "row_unit (fst work_mem_4MB) = Some ''kB''" by (simp add: work_mem_4MB_def)
  have ctx: "row_context (fst work_mem_4MB) = ''user''" by (simp add: work_mem_4MB_def)
  from c have "snd (param_get ?env [] ''work_mem'') =
       Return \<lparr>info_current_val = ''4MB'', info_raw_val = RInt 4194304, info_unit = Some ''b'',
               info_boot_val = RInt 4194304, info_context = ''user''\<rparr>"
    by (simp add: normalize_bool_def ctx)
  with h1 h2 u h4 h5 show ?thesis by blast
qed

section \<open>The checks of \<open>main\<close> before it connects\<close>

lemma shorthand_None [simp]: "(shorthand v = None) = (v = None)"
  by (simp add: shorthand_def split: option.splits)

lemma shorthand_None_eq [simp]: "shorthand None = None"
  by (simp add: shorthand_def)

text \<open>
  C7: when the sanitizer is not asked for (\<open>trust_input\<close>, the default) or accepts
  the input, a run with both a value and \<open>reset\<close> fails with the message of the
  mutually exclusive parameters, and a run with neither fails with the message of
  the missing parameter; in both cases the state of the server is untouched and the
  log is empty: no connection was opened and nothing was read.
\<close>

theorem input_checks:
  assumes "p_trust_input p \<or> check_input env (p_name p) (p_value p) (p_session_role p) = None"
  shows "(p_value p \<noteq> None \<and> p_reset p \<longrightarrow>
            main env p st = (st, [], Fail_json (mutually_exclusive_msg (p_name p))))
         \<and> (p_value p = None \<and> \<not> p_reset p \<longrightarrow>
            main env p st = (st, [], Fail_json (missing_input_msg (p_name p))))"
  using assms by (auto simp: main_def Let_def)

theorem input_checks_witness:
  "p_trust_input (task ''work_mem'' (Some ''32MB'') True False)
   \<and> p_value (task ''work_mem'' (Some ''32MB'') True False) \<noteq> None
   \<and> p_reset (task ''work_mem'' (Some ''32MB'') True False)
   \<and> main (scripted 140000 ''work_mem'' work_mem_4MB work_mem_4MB)
        (task ''work_mem'' (Some ''32MB'') True False) [] =
       ([], [], Fail_json (mutually_exclusive_msg ''work_mem''))
   \<and> p_trust_input (task ''work_mem'' None False False)
   \<and> p_value (task ''work_mem'' None False False) = None
   \<and> \<not> p_reset (task ''work_mem'' None False False)
   \<and> main (scripted 140000 ''work_mem'' work_mem_4MB work_mem_4MB)
        (task ''work_mem'' None False False) [] =
       ([], [], Fail_json (missing_input_msg ''work_mem''))"
proof -
  let ?env = "scripted 140000 ''work_mem'' work_mem_4MB work_mem_4MB"
  let ?both = "task ''work_mem'' (Some ''32MB'') True False"
  let ?neither = "task ''work_mem'' None False False"
  have t1: "p_trust_input ?both" and t2: "p_trust_input ?neither"
    by (simp_all add: task_def)
  have b: "p_value ?both \<noteq> None \<and> p_reset ?both"
    and n: "p_value ?neither = None \<and> \<not> p_reset ?neither"
    by (simp_all add: task_def)
  have nb: "p_name ?both = ''work_mem''" and nn: "p_name ?neither = ''work_mem''"
    by (simp_all add: task_def)
  from input_checks [of ?both ?env "[]"] t1 b
  have c1: "main ?env ?both [] = ([], [], Fail_json (mutually_exclusive_msg ''work_mem''))"
    unfolding nb by blast
  from input_checks [of ?neither ?env "[]"] t2 n
  have c2: "main ?env ?neither [] = ([], [], Fail_json (missing_input_msg ''work_mem''))"
    unfolding nn by blast
  from t1 t2 b n c1 c2 show ?thesis by blast
qed

section \<open>The run after the connection\<close>

lemma main_reconcile:
  assumes "reaches_param_get env p st"
  shows "main env p st =
           reconcile env (p_check_mode p) st (p_name p) (shorthand (p_value p)) (p_reset p)"
  using assms by (auto simp: main_def reaches_param_get_def Let_def)

text \<open>
  C6: in every run that reads the parameter and finds its context to be \<open>internal\<close>,
  in check mode or not, \<open>main\<close> fails with the message of the internal context; the
  server state is the one it started with and the log holds the connection and the two
  queries of \<open>param_get\<close> only, so no command was issued and no result is returned.
\<close>

theorem internal_context_fails:
  assumes "reaches_param_get env p st"
    and "param_get env st (p_name p) = (evs, Return res)"
    and "info_context res = ''internal''"
  shows "main env p st =
           (st, [Connect, Select_pg_settings (p_name p), Show (p_name p)],
            Fail_json (internal_context_msg (p_name p)))"
  using assms param_get_Return_events [OF assms(2)]
  by (simp add: main_reconcile reconcile_def Let_def)

theorem internal_context_fails_witness:
  "reaches_param_get
     (scripted 140000 ''server_version_num'' server_version_num_14 server_version_num_14)
     (task ''server_version_num'' (Some ''150000'') False False) []
   \<and> param_get (scripted 140000 ''server_version_num'' server_version_num_14 server_version_num_14)
        [] ''server_version_num'' =
       ([Select_pg_settings ''server_version_num'', Show ''server_version_num''],
        Return \<lparr>info_current_val = ''140005'', info_raw_val = RStr ''140005'',
                info_unit = None, info_boot_val = RStr ''140005'',
                info_context = ''internal''\<rparr>)
   \<and> main (scripted 140000 ''server_version_num'' server_version_num_14 server_version_num_14)
        (task ''server_version_num'' (Some ''150000'') False False) [] =
       ([], [Connect, Select_pg_settings ''server_version_num'', Show ''server_version_num''],
        Fail_json (internal_context_msg ''server_version_num''))"
proof -
  let ?env = "scripted 140000 ''server_version_num'' server_version_num_14 server_version_num_14"
  let ?p = "task ''server_version_num'' (Some ''150000'') False False"
  let ?res = "\<lparr>info_current_val = ''140005'', info_raw_val = RStr ''140005'',
               info_unit = None, info_boot_val = RStr ''140005'',
               info_context = ''internal''\<rparr>"
  have n: "p_name ?p = ''server_version_num''" by (simp add: task_def)
  have h1: "reaches_param_get ?env ?p []"
    by (simp add: run_defs server_defs)
  have h2: "param_get ?env [] (p_name ?p) =
              ([Select_pg_settings ''server_version_num'', Show ''server_version_num''], Return ?res)"
    by (simp add: run_defs server_defs server_version_num_14_def)
  have h3: "info_context ?res = ''internal''" by simp
  from internal_context_fails [OF h1 h2 h3] h1 h2 show ?thesis
    unfolding n by blast
qed

text \<open>
  Check mode when both calls of \<open>pretty_to_bytes\<close> return: in every check-mode run
  that reads the parameter and finds a context other than \<open>internal\<close>, the result has
  \<open>changed = False\<close> exactly when the canonical value of the desired value and that
  of the current display token are equal (Python's \<open>==\<close>); the server state is the
  one the run started with and the log holds the connection and the two queries of
  \<open>param_get\<close> only. The desired \<open>1GB\<close> against the current \<open>1024MB\<close> predicts
  \<open>changed = False\<close>, the desired \<open>32mb\<close> against the current \<open>4MB\<close> predicts
  \<open>changed = True\<close>.
\<close>

lemma check_mode_decision:
  assumes "reaches_param_get env p st"
    and "p_check_mode p"
    and "param_get env st (p_name p) = (evs, Return res)"
    and "info_context res \<noteq> ''internal''"
    and "pretty_to_bytes (float_of env) (desired_value p) = Inr a"
    and "pretty_to_bytes (float_of env) (Some (info_current_val res)) = Inr b"
  shows "main env p st =
           (st, [Connect, Select_pg_settings (p_name p), Show (p_name p)],
            Return \<lparr>kw_name = p_name p,
                    kw_changed = Some (\<not> py_eq (float_eq_int env) a b),
                    kw_restart_required = (info_context res = ''postmaster''),
                    kw_prev_val_pretty = info_current_val res,
                    kw_value_pretty = (if py_eq (float_eq_int env) a b
                                       then Some (info_current_val res) else desired_value p),
                    kw_value = Some (info_raw_val res, info_unit res),
                    kw_context = Some (info_context res)\<rparr>)"
  using assms param_get_Return_events [OF assms(3)]
  by (simp add: main_reconcile reconcile_def Let_def check_mode_exit_def initial_kw_def
        desired_value_def)

lemma check_mode_equal_example:
  "reaches_param_get (scripted 140000 ''work_mem'' work_mem_1024MB work_mem_1024MB)
     (task ''work_mem'' (Some ''1GB'') False True) []
   \<and> p_check_mode (task ''work_mem'' (Some ''1GB'') False True)
   \<and> param_get (scripted 140000 ''work_mem'' work_mem_1024MB work_mem_1024MB) [] ''work_mem'' =
       ([Select_pg_settings ''work_mem'', Show ''work_mem''],
        Return \<lparr>info_current_val = ''1024MB'', info_raw_val = RInt 1073741824,
                info_unit = Some ''b'', info_boot_val = RInt 4194304, info_context = ''user''\<rparr>)
   \<and> pretty_to_bytes id (Some ''1GB'') = Inr (PInt 1073741824)
   \<and> pretty_to_bytes id (Some ''1024MB'') = Inr (PInt 1073741824)
   \<and> main (scripted 140000 ''work_mem'' work_mem_1024MB work_mem_1024MB)
        (task ''work_mem'' (Some ''1GB'') False True) [] =
       ([], [Connect, Select_pg_settings ''work_mem'', Show ''work_mem''],
        Return \<lparr>kw_name = ''work_mem'', kw_changed = Some False, kw_restart_required = False,
                kw_prev_val_pretty = ''1024MB'', kw_value_pretty = Some ''1024MB'',
                kw_value = Some (RInt 1073741824, Some ''b''), kw_context = Some ''user''\<rparr>)"
proof -
  let ?env = "scripted 140000 ''work_mem'' work_mem_1024MB work_mem_1024MB"
  let ?p = "task ''work_mem'' (Some ''1GB'') False True"
  let ?res = "\<lparr>info_current_val = ''1024MB'', info_raw_val = RInt 1073741824,
               info_unit = Some ''b'', info_boot_val = RInt 4194304, info_context = ''user''\<rparr>"
  have n: "p_name ?p = ''work_mem''" by (simp add: task_def)
  have f: "float_of ?env = id" by (auto simp: scripted_def)
  have d: "desired_value ?p = Some ''1GB''"
    by (simp add: run_defs task_def chr_defs last2_def)
  have h1: "reaches_param_get ?env ?p []" by (simp add: run_defs server_defs)
  have h2: "p_check_mode ?p" by (simp add: task_def)
  have h3: "param_get ?env [] (p_name ?p) =
              ([Select_pg_settings ''work_mem'', Show ''work_mem''], Return ?res)"
    by (simp add: eval_defs work_mem_1024MB_def)
  have h4: "info_context ?res \<noteq> ''internal''" by simp
  have a: "pretty_to_bytes id (Some ''1GB'') = Inr (PInt 1073741824)"
    by (simp add: ptb_defs chr_defs)
  have b: "pretty_to_bytes id (Some ''1024MB'') = Inr (PInt 1073741824)"
    by (simp add: ptb_defs chr_defs)
  have h5: "pretty_to_bytes (float_of ?env) (desired_value ?p) = Inr (PInt 1073741824)"
    unfolding f d by (rule a)
  have h6: "pretty_to_bytes (float_of ?env) (Some (info_current_val ?res)) = Inr (PInt 1073741824)"
    unfolding f using b by simp
  from check_mode_decision [OF h1 h2 h3 h4 h5 h6]
  have c: "main ?env ?p [] =
       ([], [Connect, Select_pg_settings ''work_mem'', Show ''work_mem''],
        Return \<lparr>kw_name = ''work_mem'', kw_changed = Some False, kw_restart_required = False,
                kw_prev_val_pretty = ''1024MB'', kw_value_pretty = Some ''1024MB'',
                kw_value = Some (RInt 1073741824, Some ''b''), kw_context = Some ''user''\<rparr>)"
    by (simp add: n)
  from h1 h2 h3 a b c show ?thesis unfolding n by blast
qed

text \<open>
  The other way a check-mode run ends: \<open>pretty_to_bytes\<close> raises on the desired
  value or on the current token, and the exception leaves \<open>main\<close>.
\<close>

lemma check_mode_raises:
  assumes "reaches_param_get env p st"
    and "p_check_mode p"
    and "param_get env st (p_name p) = (evs, Return res)"
    and "info_context res \<noteq> ''internal''"
    and "pretty_to_bytes (float_of env) (desired_value p) = Inl e
         \<or> pretty_to_bytes (float_of env) (Some (info_current_val res)) = Inl e"
  shows "main env p st =
           (st, [Connect, Select_pg_settings (p_name p), Show (p_name p)], Raised e)"
proof -
  have one: "\<And>x y :: exn. x = y" by (case_tac x, case_tac y) simp
  show ?thesis
    using assms param_get_Return_events [OF assms(3)]
    by (auto simp: main_reconcile reconcile_def Let_def check_mode_exit_def desired_value_def
             split: sum.splits intro: one)
qed

lemma check_mode_unequal_example:
  "main (scripted 140000 ''work_mem'' work_mem_4MB work_mem_4MB)
        (task ''work_mem'' (Some ''32mb'') False True) [] =
     ([], [Connect, Select_pg_settings ''work_mem'', Show ''work_mem''],
      Return \<lparr>kw_name = ''work_mem'', kw_changed = Some True, kw_restart_required = False,
              kw_prev_val_pretty = ''4MB'', kw_value_pretty = Some ''32MB'',
              kw_value = Some (RInt 4194304, Some ''b''), kw_context = Some ''user''\<rparr>)"
  by (simp add: eval_defs work_mem_4MB_def)

text \<open>
  C2: the claim says that in check mode every run that reaches the decision step
  predicts \<open>changed\<close> by the comparison of the two canonical values, without a
  mutation. The comparison of line 430 calls \<open>pretty_to_bytes\<close> on the desired value
  and on the current display token outside any \<open>try\<close>. With \<open>listen_addresses\<close>
  shown as \<open>0.0.0.0\<close> and the desired value \<open>*\<close>, the run reaches that line, the
  desired value is canonical as it is, \<open>pretty_to_bytes\<close> raises on the current token
  (\<open>int()\<close> and then \<open>float()\<close> fail, lines 268--272) and the run ends with the
  exception: nothing was changed on the server, and no \<open>changed\<close> is predicted.
\<close>

theorem check_mode_no_prediction:
  "pretty_to_bytes id (Some ''*'') = Inr (PStr ''*'')
   \<and> pretty_to_bytes id (Some ''0.0.0.0'') = Inl ValueError
   \<and> main (scripted 140000 ''listen_addresses'' listen_addresses_any listen_addresses_any)
        (task ''listen_addresses'' (Some ''*'') False True) [] =
       ([], [Connect, Select_pg_settings ''listen_addresses'', Show ''listen_addresses''],
        Raised ValueError)"
  by (simp add: eval_defs listen_addresses_any_def)

text \<open>
  C5: the claim says that a reset of a parameter whose raw value equals its boot
  value gives \<open>changed = false\<close> without an apply call, in check mode as in execute
  mode. With \<open>work_mem\<close> at its boot value of 4MB the run in execute mode exits at
  once, without a command and without \<open>changed\<close> set; the run in check mode does not
  look at \<open>reset\<close>: it compares the missing value with the current token and
  reports \<open>changed = True\<close> and a \<open>value_pretty\<close> of \<open>None\<close>.
\<close>

theorem reset_noop_check_mode:
  "main (scripted 140000 ''work_mem'' work_mem_4MB work_mem_4MB)
        (task ''work_mem'' None True True) [] =
     ([], [Connect, Select_pg_settings ''work_mem'', Show ''work_mem''],
      Return \<lparr>kw_name = ''work_mem'', kw_changed = Some True, kw_restart_required = False,
              kw_prev_val_pretty = ''4MB'', kw_value_pretty = None,
              kw_value = Some (RInt 4194304, Some ''b''), kw_context = Some ''user''\<rparr>)
   \<and> main (scripted 140000 ''work_mem'' work_mem_4MB work_mem_4MB)
        (task ''work_mem'' None True False) [] =
     ([], [Connect, Select_pg_settings ''work_mem'', Show ''work_mem''],
      Return \<lparr>kw_name = ''work_mem'', kw_changed = None, kw_restart_required = False,
              kw_prev_val_pretty = ''4MB'', kw_value_pretty = Some ''4MB'',
              kw_value = Some (RInt 4194304, Some ''b''), kw_context = Some ''user''\<rparr>)"
  by (simp add: eval_defs work_mem_4MB_def)

text \<open>
  C4: the claim says that a run on a parameter of context \<open>postmaster\<close> returns
  \<open>restart_required = true\<close> on every exit, the reset that finds nothing to change
  included. That exit (lines 453--459) leaves with \<open>kw\<close> as it is, where
  \<open>restart_required\<close> is still the \<open>False\<close> of line 401: a reset of
  \<open>max_connections\<close> at its boot value returns \<open>restart_required = False\<close>.
\<close>

theorem reset_noop_restart_required:
  "main (scripted 140000 ''max_connections'' max_connections_100 max_connections_100)
        (task ''max_connections'' None True False) [] =
     ([], [Connect, Select_pg_settings ''max_connections'', Show ''max_connections''],
      Return \<lparr>kw_name = ''max_connections'', kw_changed = None, kw_restart_required = False,
              kw_prev_val_pretty = ''100'', kw_value_pretty = Some ''100'',
              kw_value = Some (RStr ''100'', None), kw_context = Some ''postmaster''\<rparr>)"
  by (simp add: eval_defs max_connections_100_def)

section \<open>Execute mode: apply and recheck\<close>

lemma param_set_fetches [simp]: "param_set env st name v c = (st1, cmds, r) \<Longrightarrow> fetches cmds = 0"
  by (auto simp: param_set_def split: sum.splits if_splits)

lemma param_set_alter:
  "param_set env st name v c = (st1, cmds, r) \<Longrightarrow> Execute (alter_system name v) \<in> set cmds"
  by (auto simp: param_set_def split: sum.splits if_splits)

text \<open>For the context \<open>postmaster\<close> the apply step issues the override and no reload.\<close>

lemma param_set_postmaster:
  "fst (snd (param_set env st name v ''postmaster'')) = [Execute (alter_system name v)]"
  by (simp add: param_set_def split: sum.splits)

lemma param_set_result:
  "param_set env st name v c = (st1, cmds, r) \<Longrightarrow> r = Return True \<or> (\<exists>m. r = Fail_json m)"
  by (auto simp: param_set_def split: sum.splits if_splits)

lemma exit_run_obs [simp]:
  "fst (exit_run st log name kw0 c rr) = st"
  "fetches (fst (snd (exit_run st log name kw0 c rr))) = fetches log"
  "commands (fst (snd (exit_run st log name kw0 c rr))) = commands log"
  "snd (snd (exit_run st log name kw0 c rr)) =
     Return (kw0\<lparr>kw_changed := Some c, kw_restart_required := rr\<rparr>)"
  "set log \<subseteq> set (fst (snd (exit_run st log name kw0 c rr)))"
  by (auto simp: exit_run_def)

lemma recheck_other:
  "info_context res \<notin> set reloadable \<Longrightarrow>
   recheck env st log name res kw0 c rr = exit_run st (log @ [Close]) name kw0 c rr"
  by (simp add: recheck_def reloadable_def)

lemma recheck_reloadable:
  "info_context res \<in> set reloadable \<Longrightarrow> connect_to_db env st = None \<Longrightarrow>
   param_get env st name = (evs2, Return res2) \<Longrightarrow>
   recheck env st log name res kw0 c rr =
     exit_run st (log @ [Close, Connect] @ evs2 @ [Close]) name
       (kw0\<lparr>kw_value_pretty := Some (info_current_val res2),
            kw_value := Some (info_raw_val res2, info_unit res)\<rparr>)
       (info_raw_val res \<noteq> info_raw_val res2) rr"
  by (simp add: recheck_def reloadable_def)

lemma recheck_state [simp]: "fst (recheck env st log name res kw0 c rr) = st"
  by (auto simp: recheck_def split: option.splits prod.splits ret.splits)

lemma recheck_log: "set log \<subseteq> set (fst (snd (recheck env st log name res kw0 c rr)))"
  by (auto simp: recheck_def exit_run_def split: option.splits prod.splits ret.splits)

lemma recheck_commands [simp]:
  "commands (fst (snd (recheck env st log name res kw0 c rr))) = commands log"
  by (auto simp: recheck_def split: option.splits prod.splits ret.splits)

lemma recheck_fetches:
  "fetches (fst (snd (recheck env st log name res kw0 c rr))) =
     fetches log
     + (if info_context res \<in> set reloadable \<and> connect_to_db env st = None then 1 else 0)"
  by (auto simp: recheck_def reloadable_def split: option.splits prod.splits ret.splits)

lemma recheck_changed:
  assumes "fetches (fst (snd (recheck env st log name res kw0 c rr))) = Suc (fetches log)"
    and "snd (snd (recheck env st log name res kw0 c rr)) = Return k"
  shows "\<exists>evs2 res2. param_get env st name = (evs2, Return res2)
           \<and> kw_changed k = Some (info_raw_val res \<noteq> info_raw_val res2)"
  using assms
  by (auto simp: recheck_def reloadable_def split: option.splits prod.splits ret.splits if_splits)

lemma set_and_recheck_obs:
  assumes "param_set env st name v (info_context res) = (st1, cmds, r)"
  shows "fst (set_and_recheck env st log name v res kw0 rr) = st1"
    and "r = Fail_json m \<Longrightarrow>
           set_and_recheck env st log name v res kw0 rr = (st1, log @ cmds, Fail_json m)"
    and "r = Return c \<Longrightarrow>
           set_and_recheck env st log name v res kw0 rr =
             recheck env st1 (log @ cmds) name res kw0 c rr"
  using assms by (auto simp: set_and_recheck_def split: ret.splits)

lemma main_execute_mode:
  assumes "reaches_param_get env p st" "\<not> p_check_mode p"
    and "param_get env st (p_name p) = (evs, Return res)"
    and "info_context res \<noteq> ''internal''"
  shows "main env p st =
           execute_mode env st [Connect, Select_pg_settings (p_name p), Show (p_name p)] (p_name p)
             (desired_value p) (p_reset p) res (initial_kw (p_name p) res)
             (info_context res = ''postmaster'')"
  using assms param_get_Return_events [OF assms(3)]
  by (simp add: main_reconcile reconcile_def Let_def desired_value_def)

text \<open>
  C1, as the claim states it: in execute mode a desired value that differs from the
  current display token as a string but is equal to it in canonical bytes makes the
  run issue the override command and report \<open>changed = true\<close>. With \<open>work_mem\<close>
  shown as \<open>1024MB\<close>, context \<open>user\<close>, and the desired \<open>1GB\<close>, on a server whose
  setting is the same after the command, the command is issued, the parameter is read
  again and the run reports \<open>changed = False\<close>.
\<close>

theorem equal_bytes_unchanged_counterexample:
  "''1GB'' \<noteq> ''1024MB''
   \<and> pretty_to_bytes id (Some ''1GB'') = pretty_to_bytes id (Some ''1024MB'')
   \<and> main (scripted 140000 ''work_mem'' work_mem_1024MB work_mem_1024MB)
        (task ''work_mem'' (Some ''1GB'') False False) [] =
       ([alter_system ''work_mem'' (RStr ''1GB''), reload_conf],
        [Connect, Select_pg_settings ''work_mem'', Show ''work_mem'',
         Execute (alter_system ''work_mem'' (RStr ''1GB'')), Execute reload_conf,
         Close, Connect, Select_pg_settings ''work_mem'', Show ''work_mem'', Close],
        Return \<lparr>kw_name = ''work_mem'', kw_changed = Some False, kw_restart_required = False,
                kw_prev_val_pretty = ''1024MB'', kw_value_pretty = Some ''1024MB'',
                kw_value = Some (RInt 1073741824, Some ''b''), kw_context = Some ''user''\<rparr>)"
  by (simp add: eval_defs work_mem_1024MB_def)

text \<open>
  C1, amended: in execute mode, for every run that reads the parameter, finds a
  context other than \<open>internal\<close> and has a desired value that differs from the
  current display token as a string (equal in canonical bytes or not), the override
  command is issued. When the apply step succeeds and the context is not one of
  \<open>sighup\<close>, \<open>superuser-backend\<close>, \<open>backend\<close>, \<open>superuser\<close>, \<open>user\<close> (so for
  \<open>postmaster\<close>), the result reports \<open>changed = True\<close>; when the context is one of
  these five and the parameter is read again, the result reports \<open>changed\<close> as the
  inequality of the raw value before and after, which is \<open>False\<close> when the setting
  did not change.
\<close>

theorem textual_difference_applies:
  assumes "reaches_param_get env p st" "\<not> p_check_mode p"
    and "param_get env st (p_name p) = (evs, Return res)"
    and "info_context res \<noteq> ''internal''"
    and "desired_value p = Some v"
    and "v \<noteq> info_current_val res"
  shows "Execute (alter_system (p_name p) (RStr v)) \<in> set (fst (snd (main env p st)))
    \<and> (\<forall>st1 cmds.
          param_set env st (p_name p) (RStr v) (info_context res) = (st1, cmds, Return True) \<longrightarrow>
          (info_context res \<notin> set reloadable \<longrightarrow>
             snd (snd (main env p st)) =
               Return \<lparr>kw_name = p_name p, kw_changed = Some True,
                       kw_restart_required = (info_context res = ''postmaster''),
                       kw_prev_val_pretty = info_current_val res, kw_value_pretty = Some v,
                       kw_value = None, kw_context = Some (info_context res)\<rparr>)
          \<and> (\<forall>evs2 res2. info_context res \<in> set reloadable \<and> connect_to_db env st1 = None
                \<and> param_get env st1 (p_name p) = (evs2, Return res2) \<longrightarrow>
             snd (snd (main env p st)) =
               Return \<lparr>kw_name = p_name p,
                       kw_changed = Some (info_raw_val res \<noteq> info_raw_val res2),
                       kw_restart_required = False,
                       kw_prev_val_pretty = info_current_val res,
                       kw_value_pretty = Some (info_current_val res2),
                       kw_value = Some (info_raw_val res2, info_unit res),
                       kw_context = Some (info_context res)\<rparr>))"
proof -
  let ?pre = "[Connect, Select_pg_settings (p_name p), Show (p_name p)]"
  let ?kw = "(initial_kw (p_name p) res)\<lparr>kw_value_pretty := Some v\<rparr>"
  let ?rr = "info_context res = ''postmaster''"
  have m: "main env p st = set_and_recheck env st ?pre (p_name p) (RStr v) res ?kw ?rr"
    using assms by (simp add: main_execute_mode execute_mode_def)
  obtain st1 cmds r where
    ps: "param_set env st (p_name p) (RStr v) (info_context res) = (st1, cmds, r)"
    by (cases "param_set env st (p_name p) (RStr v) (info_context res)") auto
  have alter: "Execute (alter_system (p_name p) (RStr v)) \<in> set cmds"
    using ps by (rule param_set_alter)
  have first: "Execute (alter_system (p_name p) (RStr v)) \<in> set (fst (snd (main env p st)))"
  proof (cases r)
    case (Return c)
    with ps m alter recheck_log [of "?pre @ cmds" env st1 "p_name p" res ?kw c ?rr]
    show ?thesis by (auto simp: set_and_recheck_def)
  next
    case (Fail_json msg)
    with ps m alter show ?thesis by (simp add: set_and_recheck_def)
  next
    case (Raised e)
    with ps m alter show ?thesis by (simp add: set_and_recheck_def)
  qed
  have notpm: "info_context res \<in> set reloadable \<Longrightarrow> info_context res \<noteq> ''postmaster''"
    by (auto simp: reloadable_def)
  have second: "\<And>st1 cmds.
      param_set env st (p_name p) (RStr v) (info_context res) = (st1, cmds, Return True) \<Longrightarrow>
      info_context res \<notin> set reloadable \<Longrightarrow>
      snd (snd (main env p st)) =
        Return \<lparr>kw_name = p_name p, kw_changed = Some True,
                kw_restart_required = (info_context res = ''postmaster''),
                kw_prev_val_pretty = info_current_val res, kw_value_pretty = Some v,
                kw_value = None, kw_context = Some (info_context res)\<rparr>"
    by (simp add: m set_and_recheck_def recheck_other initial_kw_def)
  have third: "\<And>st1 cmds evs2 res2.
      param_set env st (p_name p) (RStr v) (info_context res) = (st1, cmds, Return True) \<Longrightarrow>
      info_context res \<in> set reloadable \<Longrightarrow> connect_to_db env st1 = None \<Longrightarrow>
      param_get env st1 (p_name p) = (evs2, Return res2) \<Longrightarrow>
      snd (snd (main env p st)) =
        Return \<lparr>kw_name = p_name p,
                kw_changed = Some (info_raw_val res \<noteq> info_raw_val res2),
                kw_restart_required = False,
                kw_prev_val_pretty = info_current_val res,
                kw_value_pretty = Some (info_current_val res2),
                kw_value = Some (info_raw_val res2, info_unit res),
                kw_context = Some (info_context res)\<rparr>"
    using notpm by (simp add: m set_and_recheck_def recheck_reloadable initial_kw_def)
  from first second third show ?thesis by blast
qed

theorem textual_difference_applies_witness:
  "reaches_param_get (scripted 140000 ''work_mem'' work_mem_1024MB work_mem_1024MB)
     (task ''work_mem'' (Some ''1GB'') False False) []
   \<and> \<not> p_check_mode (task ''work_mem'' (Some ''1GB'') False False)
   \<and> param_get (scripted 140000 ''work_mem'' work_mem_1024MB work_mem_1024MB) [] ''work_mem'' =
       ([Select_pg_settings ''work_mem'', Show ''work_mem''],
        Return \<lparr>info_current_val = ''1024MB'', info_raw_val = RInt 1073741824,
                info_unit = Some ''b'', info_boot_val = RInt 4194304, info_context = ''user''\<rparr>)
   \<and> desired_value (task ''work_mem'' (Some ''1GB'') False False) = Some ''1GB''
   \<and> ''1GB'' \<noteq> ''1024MB''
   \<and> param_set (scripted 140000 ''work_mem'' work_mem_1024MB work_mem_1024MB) [] ''work_mem''
        (RStr ''1GB'') ''user'' =
       ([alter_system ''work_mem'' (RStr ''1GB''), reload_conf],
        [Execute (alter_system ''work_mem'' (RStr ''1GB'')), Execute reload_conf], Return True)
   \<and> ''user'' \<in> set reloadable
   \<and> param_get (scripted 140000 ''work_mem'' work_mem_1024MB work_mem_1024MB)
        [alter_system ''work_mem'' (RStr ''1GB''), reload_conf] ''work_mem'' =
       ([Select_pg_settings ''work_mem'', Show ''work_mem''],
        Return \<lparr>info_current_val = ''1024MB'', info_raw_val = RInt 1073741824,
                info_unit = Some ''b'', info_boot_val = RInt 4194304, info_context = ''user''\<rparr>)
   \<and> Execute (alter_system ''work_mem'' (RStr ''1GB''))
        \<in> set (fst (snd (main (scripted 140000 ''work_mem'' work_mem_1024MB work_mem_1024MB)
                            (task ''work_mem'' (Some ''1GB'') False False) [])))
   \<and> snd (snd (main (scripted 140000 ''work_mem'' work_mem_1024MB work_mem_1024MB)
                (task ''work_mem'' (Some ''1GB'') False False) [])) =
       Return \<lparr>kw_name = ''work_mem'', kw_changed = Some False, kw_restart_required = False,
               kw_prev_val_pretty = ''1024MB'', kw_value_pretty = Some ''1024MB'',
               kw_value = Some (RInt 1073741824, Some ''b''), kw_context = Some ''user''\<rparr>
   \<and> reaches_param_get (scripted 140000 ''max_connections'' max_connections_100 max_connections_100)
       (task ''max_connections'' (Some ''200'') False False) []
   \<and> param_get (scripted 140000 ''max_connections'' max_connections_100 max_connections_100) []
        ''max_connections'' =
       ([Select_pg_settings ''max_connections'', Show ''max_connections''],
        Return \<lparr>info_current_val = ''100'', info_raw_val = RStr ''100'', info_unit = None,
                info_boot_val = RStr ''100'', info_context = ''postmaster''\<rparr>)
   \<and> desired_value (task ''max_connections'' (Some ''200'') False False) = Some ''200''
   \<and> ''200'' \<noteq> ''100''
   \<and> param_set (scripted 140000 ''max_connections'' max_connections_100 max_connections_100) []
        ''max_connections'' (RStr ''200'') ''postmaster'' =
       ([alter_system ''max_connections'' (RStr ''200'')],
        [Execute (alter_system ''max_connections'' (RStr ''200''))], Return True)
   \<and> ''postmaster'' \<notin> set reloadable
   \<and> snd (snd (main (scripted 140000 ''max_connections'' max_connections_100 max_connections_100)
                (task ''max_connections'' (Some ''200'') False False) [])) =
       Return \<lparr>kw_name = ''max_connections'', kw_changed = Some True, kw_restart_required = True,
               kw_prev_val_pretty = ''100'', kw_value_pretty = Some ''200'',
               kw_value = None, kw_context = Some ''postmaster''\<rparr>"
proof -
  let ?env = "scripted 140000 ''work_mem'' work_mem_1024MB work_mem_1024MB"
  let ?p = "task ''work_mem'' (Some ''1GB'') False False"
  let ?res = "\<lparr>info_current_val = ''1024MB'', info_raw_val = RInt 1073741824,
               info_unit = Some ''b'', info_boot_val = RInt 4194304, info_context = ''user''\<rparr>"
  let ?st1 = "[alter_system ''work_mem'' (RStr ''1GB''), reload_conf]"
  let ?cmds = "[Execute (alter_system ''work_mem'' (RStr ''1GB'')), Execute reload_conf]"
  have n: "p_name ?p = ''work_mem''" by (simp add: task_def)
  have h1: "reaches_param_get ?env ?p []" by (simp add: run_defs server_defs)
  have h2: "\<not> p_check_mode ?p" by (simp add: task_def)
  have h3: "param_get ?env [] (p_name ?p) =
              ([Select_pg_settings ''work_mem'', Show ''work_mem''], Return ?res)"
    by (simp add: eval_defs work_mem_1024MB_def)
  have h4: "info_context ?res \<noteq> ''internal''" by simp
  have h5: "desired_value ?p = Some ''1GB''"
    by (simp add: run_defs task_def chr_defs last2_def char_eval)
  have h6: "''1GB'' \<noteq> info_current_val ?res" by simp
  have s1: "param_set ?env [] (p_name ?p) (RStr ''1GB'') (info_context ?res) = (?st1, ?cmds, Return True)"
    by (simp add: n param_set_def scripted_def)
  have s2: "info_context ?res \<in> set reloadable" by (simp add: reloadable_def)
  have s3: "connect_to_db ?env ?st1 = None" by (simp add: scripted_def)
  have s4: "param_get ?env ?st1 (p_name ?p) =
              ([Select_pg_settings ''work_mem'', Show ''work_mem''], Return ?res)"
    by (simp add: eval_defs work_mem_1024MB_def)
  note t = textual_difference_applies [OF h1 h2 h3 h4 h5 h6]
  from t have a: "Execute (alter_system (p_name ?p) (RStr ''1GB'')) \<in> set (fst (snd (main ?env ?p [])))"
    by (rule conjunct1)
  from t s1 s2 s3 s4 have "snd (snd (main ?env ?p [])) =
       Return \<lparr>kw_name = p_name ?p,
               kw_changed = Some (info_raw_val ?res \<noteq> info_raw_val ?res),
               kw_restart_required = False,
               kw_prev_val_pretty = info_current_val ?res,
               kw_value_pretty = Some (info_current_val ?res),
               kw_value = Some (info_raw_val ?res, info_unit ?res),
               kw_context = Some (info_context ?res)\<rparr>"
    by blast
  then have c: "snd (snd (main ?env ?p [])) =
       Return \<lparr>kw_name = ''work_mem'', kw_changed = Some False, kw_restart_required = False,
               kw_prev_val_pretty = ''1024MB'', kw_value_pretty = Some ''1024MB'',
               kw_value = Some (RInt 1073741824, Some ''b''), kw_context = Some ''user''\<rparr>"
    by (simp add: n)
  have h3': "param_get ?env [] ''work_mem'' =
              ([Select_pg_settings ''work_mem'', Show ''work_mem''], Return ?res)"
    using h3 by (simp only: n)
  have h6': "''1GB'' \<noteq> ''1024MB''" by simp
  have s1': "param_set ?env [] ''work_mem'' (RStr ''1GB'') ''user'' = (?st1, ?cmds, Return True)"
    using s1 by (simp add: n)
  have s2': "''user'' \<in> set reloadable" using s2 by simp
  have s4': "param_get ?env ?st1 ''work_mem'' =
              ([Select_pg_settings ''work_mem'', Show ''work_mem''], Return ?res)"
    using s4 by (simp only: n)
  have a': "Execute (alter_system ''work_mem'' (RStr ''1GB'')) \<in> set (fst (snd (main ?env ?p [])))"
    using a by (simp only: n)
  let ?env2 = "scripted 140000 ''max_connections'' max_connections_100 max_connections_100"
  let ?p2 = "task ''max_connections'' (Some ''200'') False False"
  let ?res2 = "\<lparr>info_current_val = ''100'', info_raw_val = RStr ''100'', info_unit = None,
                info_boot_val = RStr ''100'', info_context = ''postmaster''\<rparr>"
  let ?st2 = "[alter_system ''max_connections'' (RStr ''200'')]"
  let ?cmds2 = "[Execute (alter_system ''max_connections'' (RStr ''200''))]"
  have n2: "p_name ?p2 = ''max_connections''" by (simp add: task_def)
  have g1: "reaches_param_get ?env2 ?p2 []" by (simp add: run_defs server_defs)
  have g2: "\<not> p_check_mode ?p2" by (simp add: task_def)
  have g3: "param_get ?env2 [] (p_name ?p2) =
              ([Select_pg_settings ''max_connections'', Show ''max_connections''], Return ?res2)"
    by (simp add: eval_defs max_connections_100_def)
  have g4: "info_context ?res2 \<noteq> ''internal''" by simp
  have g5: "desired_value ?p2 = Some ''200''"
    by (simp add: run_defs task_def chr_defs last2_def char_eval)
  have g6: "''200'' \<noteq> info_current_val ?res2" by simp
  have r1: "param_set ?env2 [] (p_name ?p2) (RStr ''200'') (info_context ?res2) = (?st2, ?cmds2, Return True)"
    by (simp add: n2 param_set_def scripted_def)
  have r2: "info_context ?res2 \<notin> set reloadable" by (simp add: reloadable_def)
  from textual_difference_applies [OF g1 g2 g3 g4 g5 g6] r1 r2
  have "snd (snd (main ?env2 ?p2 [])) =
          Return \<lparr>kw_name = p_name ?p2, kw_changed = Some True,
                  kw_restart_required = (info_context ?res2 = ''postmaster''),
                  kw_prev_val_pretty = info_current_val ?res2, kw_value_pretty = Some ''200'',
                  kw_value = None, kw_context = Some (info_context ?res2)\<rparr>"
    by blast
  then have c2: "snd (snd (main ?env2 ?p2 [])) =
       Return \<lparr>kw_name = ''max_connections'', kw_changed = Some True, kw_restart_required = True,
               kw_prev_val_pretty = ''100'', kw_value_pretty = Some ''200'',
               kw_value = None, kw_context = Some ''postmaster''\<rparr>"
    by (simp add: n2)
  have g3': "param_get ?env2 [] ''max_connections'' =
              ([Select_pg_settings ''max_connections'', Show ''max_connections''], Return ?res2)"
    using g3 by (simp only: n2)
  have g6': "''200'' \<noteq> ''100''" by simp
  have r1': "param_set ?env2 [] ''max_connections'' (RStr ''200'') ''postmaster'' = (?st2, ?cmds2, Return True)"
    using r1 by (simp add: n2)
  have r2': "''postmaster'' \<notin> set reloadable" using r2 by simp
  from h1 h2 h3' h5 h6' s1' s2' s4' a' c g1 g3' g5 g6' r1' r2' c2 show ?thesis by blast
qed

text \<open>
  C3, as the claim states it: the parameter is read a second time only after a
  successful apply. With \<open>fsync\<close> shown as \<open>on\<close>, context \<open>sighup\<close>, and the
  desired value \<open>on\<close>, no command is issued (the state of the server is still the
  empty list of commands) and the parameter is read a second time all the same.
\<close>

theorem recheck_without_apply_counterexample:
  "main (scripted 140000 ''fsync'' fsync_on fsync_on) (task ''fsync'' (Some ''on'') False False) [] =
     ([], [Connect, Select_pg_settings ''fsync'', Show ''fsync'',
           Close, Connect, Select_pg_settings ''fsync'', Show ''fsync'', Close],
      Return \<lparr>kw_name = ''fsync'', kw_changed = Some False, kw_restart_required = False,
              kw_prev_val_pretty = ''on'', kw_value_pretty = Some ''on'',
              kw_value = Some (RStr ''on'', None), kw_context = Some ''sighup''\<rparr>)"
  by (simp add: eval_defs fsync_on_def)

text \<open>
  C3, amended: in every run in execute mode that reads the parameter and finds a
  context other than \<open>internal\<close>,
  \<^item> the parameter is read a second time only when the context is one of \<open>sighup\<close>,
    \<open>superuser-backend\<close>, \<open>backend\<close>, \<open>superuser\<close>, \<open>user\<close>;
  \<^item> it is not read a second time when the apply step (of the desired value, or of
    the boot value on a reset) fails;
  \<^item> it is read a second time, with no command issued, when the desired value equals
    the current display token, the context is one of the five and the connection
    opens: the second read does not need an apply;
  \<^item> when it is read a second time and the run returns a result, \<open>changed\<close> in the
    result is the inequality of the raw value read first and the raw value read second.
\<close>

theorem recheck_conditions:
  assumes "reaches_param_get env p st" "\<not> p_check_mode p"
    and "param_get env st (p_name p) = (evs, Return res)"
    and "info_context res \<noteq> ''internal''"
  shows "(fetches (fst (snd (main env p st))) = 2 \<longrightarrow> info_context res \<in> set reloadable)
    \<and> (\<forall>v st1 cmds m.
          (desired_value p = Some v \<and> v \<noteq> info_current_val res
             \<and> param_set env st (p_name p) (RStr v) (info_context res) = (st1, cmds, Fail_json m))
          \<or> (p_reset p \<and> info_raw_val res \<noteq> info_boot_val res
             \<and> param_set env st (p_name p) (info_boot_val res) (info_context res)
                 = (st1, cmds, Fail_json m))
          \<longrightarrow> fetches (fst (snd (main env p st))) = 1)
    \<and> (desired_value p = Some (info_current_val res) \<and> info_context res \<in> set reloadable
          \<and> connect_to_db env st = None \<longrightarrow>
          fetches (fst (snd (main env p st))) = 2 \<and> commands (fst (snd (main env p st))) = [])
    \<and> (\<forall>k. fetches (fst (snd (main env p st))) = 2 \<and> snd (snd (main env p st)) = Return k \<longrightarrow>
          (\<exists>evs2 res2. param_get env (fst (main env p st)) (p_name p) = (evs2, Return res2)
              \<and> kw_changed k = Some (info_raw_val res \<noteq> info_raw_val res2)))"
proof -
  let ?n = "p_name p"
  let ?pre = "[Connect, Select_pg_settings ?n, Show ?n]"
  let ?kw = "initial_kw ?n res"
  let ?rr = "info_context res = ''postmaster''"
  let ?log = "fst (snd (main env p st))"
  have m: "main env p st = execute_mode env st ?pre ?n (desired_value p) (p_reset p) res ?kw ?rr"
    using assms by (rule main_execute_mode)
  have valid: "(desired_value p = None) = p_reset p"
    using assms(1) by (auto simp: reaches_param_get_def desired_value_def)
  consider (set) v where "desired_value p = Some v" "v \<noteq> info_current_val res"
    | (keep) "desired_value p = Some (info_current_val res)"
    | (noop) "desired_value p = None" "info_raw_val res = info_boot_val res"
    | (reset) "desired_value p = None" "info_raw_val res \<noteq> info_boot_val res"
    by (cases "desired_value p") auto
  then show ?thesis
  proof cases
    case (set v)
    obtain st1 cmds r where
      ps: "param_set env st ?n (RStr v) (info_context res) = (st1, cmds, r)"
      by (cases "param_set env st ?n (RStr v) (info_context res)") auto
    have m': "main env p st =
                set_and_recheck env st ?pre ?n (RStr v) res (?kw\<lparr>kw_value_pretty := Some v\<rparr>) ?rr"
      using set by (simp add: m execute_mode_def)
    from param_set_result [OF ps] show ?thesis
    proof
      assume r: "r = Return True"
      have e: "main env p st =
                 recheck env st1 (?pre @ cmds) ?n res (?kw\<lparr>kw_value_pretty := Some v\<rparr>) True ?rr"
        using set_and_recheck_obs(3) [OF ps r] m' by simp
      have f: "fetches ?log =
                 1 + (if info_context res \<in> set reloadable \<and> connect_to_db env st1 = None
                      then 1 else 0)"
        using ps by (simp add: e recheck_fetches)
      have c: "\<And>k. fetches ?log = 2 \<Longrightarrow> snd (snd (main env p st)) = Return k \<Longrightarrow>
                 \<exists>evs2 res2. param_get env (fst (main env p st)) ?n = (evs2, Return res2)
                    \<and> kw_changed k = Some (info_raw_val res \<noteq> info_raw_val res2)"
        using recheck_changed
                [of env st1 "?pre @ cmds" ?n res "?kw\<lparr>kw_value_pretty := Some v\<rparr>" True ?rr] ps
        by (simp add: e)
      from f c set ps r valid show ?thesis by (auto split: if_splits)
    next
      assume "\<exists>msg. r = Fail_json msg"
      then obtain msg where r: "r = Fail_json msg" ..
      have e: "main env p st = (st1, ?pre @ cmds, Fail_json msg)"
        using set_and_recheck_obs(2) [OF ps r] m' by simp
      from e ps set valid show ?thesis by auto
    qed
  next
    case keep
    have nr: "\<not> p_reset p" using keep valid by simp
    have e: "main env p st = recheck env st ?pre ?n res ?kw False ?rr"
      using keep nr by (simp add: m execute_mode_def reset_mode_def)
    have f: "fetches ?log =
               1 + (if info_context res \<in> set reloadable \<and> connect_to_db env st = None
                    then 1 else 0)"
      by (simp add: e recheck_fetches)
    have c: "\<And>k. fetches ?log = 2 \<Longrightarrow> snd (snd (main env p st)) = Return k \<Longrightarrow>
               \<exists>evs2 res2. param_get env (fst (main env p st)) ?n = (evs2, Return res2)
                  \<and> kw_changed k = Some (info_raw_val res \<noteq> info_raw_val res2)"
      using recheck_changed [of env st ?pre ?n res ?kw False ?rr] by (simp add: e)
    have cm: "commands ?log = []" by (simp add: e)
    from f c cm keep nr show ?thesis by (auto split: if_splits)
  next
    case noop
    have r: "p_reset p" using noop valid by simp
    have e: "main env p st =
               (st, ?pre, Return (?kw\<lparr>kw_value := Some (info_raw_val res, info_unit res)\<rparr>))"
      using noop r by (simp add: m execute_mode_def reset_mode_def)
    from e noop show ?thesis by auto
  next
    case reset
    have rs: "p_reset p" using reset valid by simp
    obtain st1 cmds r where
      ps: "param_set env st ?n (info_boot_val res) (info_context res) = (st1, cmds, r)"
      by (cases "param_set env st ?n (info_boot_val res) (info_context res)") auto
    have m': "main env p st = set_and_recheck env st ?pre ?n (info_boot_val res) res ?kw ?rr"
      using reset rs by (simp add: m execute_mode_def reset_mode_def)
    from param_set_result [OF ps] show ?thesis
    proof
      assume r: "r = Return True"
      have e: "main env p st = recheck env st1 (?pre @ cmds) ?n res ?kw True ?rr"
        using set_and_recheck_obs(3) [OF ps r] m' by simp
      have f: "fetches ?log =
                 1 + (if info_context res \<in> set reloadable \<and> connect_to_db env st1 = None
                      then 1 else 0)"
        using ps by (simp add: e recheck_fetches)
      have c: "\<And>k. fetches ?log = 2 \<Longrightarrow> snd (snd (main env p st)) = Return k \<Longrightarrow>
                 \<exists>evs2 res2. param_get env (fst (main env p st)) ?n = (evs2, Return res2)
                    \<and> kw_changed k = Some (info_raw_val res \<noteq> info_raw_val res2)"
        using recheck_changed [of env st1 "?pre @ cmds" ?n res ?kw True ?rr] ps by (simp add: e)
      from f c reset ps r show ?thesis by (auto split: if_splits)
    next
      assume "\<exists>msg. r = Fail_json msg"
      then obtain msg where r: "r = Fail_json msg" ..
      have e: "main env p st = (st1, ?pre @ cmds, Fail_json msg)"
        using set_and_recheck_obs(2) [OF ps r] m' by simp
      from e ps reset show ?thesis by auto
    qed
  qed
qed

theorem recheck_conditions_witness:
  "reaches_param_get (scripted 140000 ''fsync'' fsync_on fsync_on)
     (task ''fsync'' (Some ''on'') False False) []
   \<and> \<not> p_check_mode (task ''fsync'' (Some ''on'') False False)
   \<and> param_get (scripted 140000 ''fsync'' fsync_on fsync_on) [] ''fsync'' =
       ([Select_pg_settings ''fsync'', Show ''fsync''],
        Return \<lparr>info_current_val = ''on'', info_raw_val = RStr ''on'', info_unit = None,
                info_boot_val = RStr ''on'', info_context = ''sighup''\<rparr>)
   \<and> desired_value (task ''fsync'' (Some ''on'') False False) = Some ''on''
   \<and> ''sighup'' \<in> set reloadable
   \<and> connect_to_db (scripted 140000 ''fsync'' fsync_on fsync_on) [] = None
   \<and> fetches (fst (snd (main (scripted 140000 ''fsync'' fsync_on fsync_on)
                           (task ''fsync'' (Some ''on'') False False) []))) = 2
   \<and> commands (fst (snd (main (scripted 140000 ''fsync'' fsync_on fsync_on)
                            (task ''fsync'' (Some ''on'') False False) []))) = []
   \<and> reaches_param_get (refusing (scripted 140000 ''work_mem'' work_mem_4MB work_mem_32MB))
       (task ''work_mem'' (Some ''32mb'') False False) []
   \<and> param_get (refusing (scripted 140000 ''work_mem'' work_mem_4MB work_mem_32MB)) [] ''work_mem'' =
       ([Select_pg_settings ''work_mem'', Show ''work_mem''],
        Return \<lparr>info_current_val = ''4MB'', info_raw_val = RInt 4194304, info_unit = Some ''b'',
                info_boot_val = RInt 4194304, info_context = ''user''\<rparr>)
   \<and> desired_value (task ''work_mem'' (Some ''32mb'') False False) = Some ''32MB''
   \<and> ''32MB'' \<noteq> ''4MB''
   \<and> param_set (refusing (scripted 140000 ''work_mem'' work_mem_4MB work_mem_32MB)) [] ''work_mem''
        (RStr ''32MB'') ''user'' =
       ([], [Execute (alter_system ''work_mem'' (RStr ''32MB''))],
        Fail_json (unable_msg ''work_mem'' ''must be superuser to execute ALTER SYSTEM command''))
   \<and> fetches (fst (snd (main (refusing (scripted 140000 ''work_mem'' work_mem_4MB work_mem_32MB))
                           (task ''work_mem'' (Some ''32mb'') False False) []))) = 1"
proof -
  let ?env = "scripted 140000 ''fsync'' fsync_on fsync_on"
  let ?p = "task ''fsync'' (Some ''on'') False False"
  let ?res = "\<lparr>info_current_val = ''on'', info_raw_val = RStr ''on'', info_unit = None,
               info_boot_val = RStr ''on'', info_context = ''sighup''\<rparr>"
  have n: "p_name ?p = ''fsync''" by (simp add: task_def)
  have h1: "reaches_param_get ?env ?p []" by (simp add: run_defs server_defs)
  have h2: "\<not> p_check_mode ?p" by (simp add: task_def)
  have h3: "param_get ?env [] (p_name ?p) =
              ([Select_pg_settings ''fsync'', Show ''fsync''], Return ?res)"
    by (simp add: eval_defs fsync_on_def)
  have h4: "info_context ?res \<noteq> ''internal''" by simp
  have d: "desired_value ?p = Some (info_current_val ?res)"
    by (simp add: run_defs task_def chr_defs last2_def char_eval)
  have s2: "info_context ?res \<in> set reloadable" by (simp add: reloadable_def)
  have s3: "connect_to_db ?env [] = None" by (simp add: scripted_def)
  from recheck_conditions [OF h1 h2 h3 h4] d s2 s3
  have c: "fetches (fst (snd (main ?env ?p []))) = 2 \<and> commands (fst (snd (main ?env ?p []))) = []"
    by blast
  have h3': "param_get ?env [] ''fsync'' =
              ([Select_pg_settings ''fsync'', Show ''fsync''], Return ?res)"
    using h3 by (simp only: n)
  have d': "desired_value ?p = Some ''on''" using d by simp
  have s2': "''sighup'' \<in> set reloadable" using s2 by simp
  let ?env2 = "refusing (scripted 140000 ''work_mem'' work_mem_4MB work_mem_32MB)"
  let ?p2 = "task ''work_mem'' (Some ''32mb'') False False"
  let ?res2 = "\<lparr>info_current_val = ''4MB'', info_raw_val = RInt 4194304, info_unit = Some ''b'',
                info_boot_val = RInt 4194304, info_context = ''user''\<rparr>"
  let ?m = "unable_msg ''work_mem'' ''must be superuser to execute ALTER SYSTEM command''"
  let ?cmds = "[Execute (alter_system ''work_mem'' (RStr ''32MB''))]"
  have n2: "p_name ?p2 = ''work_mem''" by (simp add: task_def)
  have g1: "reaches_param_get ?env2 ?p2 []" by (simp add: run_defs server_defs refusing_def)
  have g2: "\<not> p_check_mode ?p2" by (simp add: task_def)
  have g3: "param_get ?env2 [] (p_name ?p2) =
              ([Select_pg_settings ''work_mem'', Show ''work_mem''], Return ?res2)"
    by (simp add: eval_defs refusing_def work_mem_4MB_def)
  have g4: "info_context ?res2 \<noteq> ''internal''" by simp
  have g5: "desired_value ?p2 = Some ''32MB''"
    by (simp add: run_defs task_def chr_defs last2_def char_eval)
  have g6: "''32MB'' \<noteq> info_current_val ?res2" by simp
  have r1: "param_set ?env2 [] (p_name ?p2) (RStr ''32MB'') (info_context ?res2) = ([], ?cmds, Fail_json ?m)"
    by (simp add: n2 param_set_def refusing_def)
  from recheck_conditions [OF g1 g2 g3 g4] g5 g6 r1
  have c2: "fetches (fst (snd (main ?env2 ?p2 []))) = 1" by blast
  have g3': "param_get ?env2 [] ''work_mem'' =
              ([Select_pg_settings ''work_mem'', Show ''work_mem''], Return ?res2)"
    using g3 by (simp only: n2)
  have g6': "''32MB'' \<noteq> ''4MB''" by simp
  have r1': "param_set ?env2 [] ''work_mem'' (RStr ''32MB'') ''user'' = ([], ?cmds, Fail_json ?m)"
    using r1 by (simp add: n2)
  from h1 h2 h3' d' s2' s3 c g1 g3' g5 g6' r1' c2 show ?thesis by blast
qed

end
